theory Spec2Isabelle
  imports Complex_Main "HOL-Library.Sublist" "HOL-Library.AList"
    "HOL-Library.Char_ord" "HOL-Library.List_Lexorder"
begin

section \<open>Python values\<close>

text \<open>
  The repository is Python. Strings are character lists; the character predicates
  and case mappings of Python are given on the ASCII range, and a character beyond
  it belongs to no class and has no case. A Python \<open>float\<close> is a \<open>real\<close>: rounding,
  infinities and NaN are not part of the model. A Python \<open>int\<close> is an \<open>int\<close>.
\<close>

definition py_ord :: "char \<Rightarrow> nat" where
  "py_ord c = of_char c"

definition isspace :: "char \<Rightarrow> bool" where
  "isspace c = (let n = py_ord c in (9 \<le> n \<and> n \<le> 13) \<or> (28 \<le> n \<and> n \<le> 32))"

definition isdigit :: "char \<Rightarrow> bool" where
  "isdigit c = (let n = py_ord c in 48 \<le> n \<and> n \<le> 57)"

definition isupper :: "char \<Rightarrow> bool" where
  "isupper c = (let n = py_ord c in 65 \<le> n \<and> n \<le> 90)"

definition islower :: "char \<Rightarrow> bool" where
  "islower c = (let n = py_ord c in 97 \<le> n \<and> n \<le> 122)"

definition isalnum :: "char \<Rightarrow> bool" where
  "isalnum c = (isdigit c \<or> isupper c \<or> islower c)"

definition lower_char :: "char \<Rightarrow> char" where
  "lower_char c = (if isupper c then char_of (py_ord c + 32) else c)"

definition upper_char :: "char \<Rightarrow> char" where
  "upper_char c = (if islower c then char_of (py_ord c - 32) else c)"

text \<open>\<open>s.lower()\<close>, \<open>s.upper()\<close>, \<open>s.strip()\<close>, \<open>s.replace(' ', '')\<close>.\<close>

definition lower :: "string \<Rightarrow> string" where
  "lower s = map lower_char s"

definition upper :: "string \<Rightarrow> string" where
  "upper s = map upper_char s"

definition strip :: "string \<Rightarrow> string" where
  "strip s = rev (dropWhile isspace (rev (dropWhile isspace s)))"

definition remove_spaces :: "string \<Rightarrow> string" where
  "remove_spaces s = filter (\<lambda>c. c \<noteq> CHR '' '') s"

text \<open>\<open>sub in s\<close> on strings: \<open>sub\<close> occurs in \<open>s\<close> as a contiguous run.\<close>

fun str_in :: "string \<Rightarrow> string \<Rightarrow> bool" where
  "str_in sub [] = (sub = [])"
| "str_in sub (c # cs) = (prefix sub (c # cs) \<or> str_in sub cs)"

text \<open>\<open>s.split()\<close>: the maximal runs of non-whitespace characters.\<close>

fun split_acc :: "string \<Rightarrow> string \<Rightarrow> string list" where
  "split_acc w [] = (if w = [] then [] else [w])"
| "split_acc w (c # cs) =
     (if isspace c then (if w = [] then split_acc [] cs else w # split_acc [] cs)
      else split_acc (w @ [c]) cs)"

definition split :: "string \<Rightarrow> string list" where
  "split s = split_acc [] s"

text \<open>
  The values a dictionary of the program holds. \<open>PRef a\<close> is a reference to the
  dictionary object stored at address \<open>a\<close> of the heap, \<open>PStrs\<close> a list of strings.
\<close>

datatype pyval =
    PNone
  | PBool bool
  | PInt int
  | PFloat real
  | PStr string
  | PStrs "string list"
  | PRef nat

datatype pyerr =
    TypeError string
  | KeyError string
  | ValueError string
  | AttributeError string
  | GeocoderTimedOut
  | GeocoderServiceError
  | OtherError string

text \<open>A dictionary keeps its keys in insertion order; \<open>d[k] = v\<close> is \<open>AList.update\<close>.\<close>

type_synonym pydict = "(string \<times> pyval) list"

section \<open>Regular expressions\<close>

text \<open>
  The fragment of Python's \<open>re\<close> that the patterns of \<open>property_parser.py\<close> use:
  literals, character classes, greedy bounded repetition of a character class,
  sequence, ordered alternation and numbered groups. Every pattern of the program is
  compiled with \<open>re.IGNORECASE\<close>, so letters match in either case. \<open>rmatch\<close> lists
  the ways a pattern matches a prefix of the text, in the order in which the
  backtracking matcher tries them; each way is the unread rest of the text and the
  groups captured so far.
\<close>

datatype citem = Digit | Space | Word | One char | Range char char

fun citem_mem :: "citem \<Rightarrow> char \<Rightarrow> bool" where
  "citem_mem Digit c = isdigit c"
| "citem_mem Space c = isspace c"
| "citem_mem Word c = (isalnum c \<or> c = CHR ''_'')"
| "citem_mem (One d) c = (lower_char c = lower_char d)"
| "citem_mem (Range a b) c =
     ((py_ord a \<le> py_ord (lower_char c) \<and> py_ord (lower_char c) \<le> py_ord b) \<or>
      (py_ord a \<le> py_ord (upper_char c) \<and> py_ord (upper_char c) \<le> py_ord b))"

definition cls_mem :: "citem list \<Rightarrow> char \<Rightarrow> bool" where
  "cls_mem cl c = list_ex (\<lambda>i. citem_mem i c) cl"

datatype rx =
    Lit string
  | Rep "citem list" nat "nat option"
  | Seq rx rx
  | Alt rx rx
  | Grp nat rx

type_synonym caps = "(nat \<times> string) list"

fun rmatch :: "rx \<Rightarrow> string \<Rightarrow> caps \<Rightarrow> (string \<times> caps) list" where
  "rmatch (Lit l) s cs =
     (if length l \<le> length s \<and> lower (take (length l) s) = lower l
      then [(drop (length l) s, cs)] else [])"
| "rmatch (Rep cl lo hi) s cs =
     (let k = length (takeWhile (cls_mem cl) s);
          m = (case hi of None \<Rightarrow> k | Some b \<Rightarrow> min k b)
      in map (\<lambda>j. (drop j s, cs)) (rev [lo..<Suc m]))"
| "rmatch (Seq a b) s cs = concat (map (\<lambda>(s', cs'). rmatch b s' cs') (rmatch a s cs))"
| "rmatch (Alt a b) s cs = rmatch a s cs @ rmatch b s cs"
| "rmatch (Grp n r) s cs =
     map (\<lambda>(s', cs'). (s', AList.update n (take (length s - length s') s) cs'))
       (rmatch r s cs)"

text \<open>\<open>pattern.search(text)\<close>: the first way to match at the leftmost position that has one.\<close>

fun rsearch :: "rx \<Rightarrow> string \<Rightarrow> caps option" where
  "rsearch r [] = (case rmatch r [] [] of [] \<Rightarrow> None | (s', cs) # _ \<Rightarrow> Some cs)"
| "rsearch r (c # s) =
     (case rmatch r (c # s) [] of [] \<Rightarrow> rsearch r s | (s', cs) # _ \<Rightarrow> Some cs)"

text \<open>\<open>match.group(n)\<close>; every group of the program's patterns takes part in every match.\<close>

definition group :: "caps \<Rightarrow> nat \<Rightarrow> string" where
  "group cs n = (case map_of cs n of None \<Rightarrow> [] | Some t \<Rightarrow> t)"

fun seqs :: "rx list \<Rightarrow> rx" where
  "seqs [] = Lit []"
| "seqs [r] = r"
| "seqs (r # rs) = Seq r (seqs rs)"

fun alts :: "rx list \<Rightarrow> rx" where
  "alts [] = Rep [] 1 (Some 1)"
| "alts [r] = r"
| "alts (r # rs) = Alt r (alts rs)"

definition ws0 :: rx where \<comment> \<open>\<open>\s*\<close>\<close>
  "ws0 = Rep [Space] 0 None"

definition ws1 :: rx where \<comment> \<open>\<open>\s+\<close>\<close>
  "ws1 = Rep [Space] 1 None"

definition digits :: "nat \<Rightarrow> nat option \<Rightarrow> rx" where \<comment> \<open>\<open>\d{lo,hi}\<close>\<close>
  "digits lo hi = Rep [Digit] lo hi"

definition opt_comma :: rx where \<comment> \<open>\<open>,?\<close>\<close>
  "opt_comma = Rep [One CHR '',''] 0 (Some 1)"

definition words1 :: rx where \<comment> \<open>\<open>\w+\<close>\<close>
  "words1 = Rep [Word] 1 None"

definition we :: rx where \<comment> \<open>\<open>[WE]\<close>\<close>
  "we = Rep [One CHR ''W'', One CHR ''E''] 1 (Some 1)"

section \<open>property_parser.py\<close>

subsection \<open>The patterns\<close>

definition quarter_section_pattern :: rx where
  "quarter_section_pattern = seqs
     [Grp 1 (Rep [One CHR ''N'', One CHR ''S'', One CHR ''E'', One CHR ''W''] 1 (Some 2)),
      ws0, Grp 2 (digits 1 (Some 2)), ws0, Lit ''-'', ws0,
      Grp 3 (digits 1 (Some 3)), ws0, Lit ''-'', ws0,
      Grp 4 (digits 1 (Some 3)), ws0, Lit ''-'', ws0,
      Grp 5 we, ws0, Grp 6 (digits 1 (Some 1))]"

definition lot_block_pattern :: rx where
  "lot_block_pattern = seqs
     [Lit ''LOT'', ws0, Grp 1 (digits 1 None), ws0, opt_comma, ws0,
      Lit ''BLOCK'', ws0, Grp 2 (digits 1 None), ws0, opt_comma, ws0,
      Lit ''PLAN'', ws0, Grp 3 words1]"

definition parcel_pattern :: rx where
  "parcel_pattern = seqs
     [Lit ''PARCEL'', ws0, Grp 1 words1, ws0, opt_comma, ws0,
      Lit ''PLAN'', ws0, Grp 2 words1]"

definition section_pattern :: rx where
  "section_pattern = seqs
     [Lit ''SECTION'', ws0, Grp 1 (digits 1 (Some 2)), ws0, opt_comma, ws0,
      Lit ''TOWNSHIP'', ws0, Grp 2 (digits 1 (Some 3)), ws0, opt_comma, ws0,
      Lit ''RANGE'', ws0, Grp 3 (digits 1 (Some 3)), ws0, opt_comma, ws0,
      Grp 4 we, ws0, Grp 5 (digits 1 (Some 1))]"

text \<open>\<open>self.legal_patterns\<close>, in the order in which the dictionary is written and iterated.\<close>

definition legal_patterns :: "(string \<times> rx) list" where
  "legal_patterns =
     [(''quarter_section'', quarter_section_pattern),
      (''lot_block'', lot_block_pattern),
      (''parcel'', parcel_pattern),
      (''section'', section_pattern)]"

definition street_suffixes :: "string list" where
  "street_suffixes =
     [''Street'', ''St'', ''Avenue'', ''Ave'', ''Road'', ''Rd'', ''Drive'', ''Dr'',
      ''Lane'', ''Ln'', ''Boulevard'', ''Blvd'', ''Way'', ''Circle'', ''Cir'',
      ''Court'', ''Ct'', ''Crescent'', ''Cres'']"

definition street_address_pattern :: rx where
  "street_address_pattern = seqs
     [Grp 1 (digits 1 None), ws1,
      Grp 2 (Seq
        (Rep [Range CHR ''A'' CHR ''Z'', Range CHR ''a'' CHR ''z'',
              Range CHR ''0'' CHR ''9'', Space] 1 None)
        (alts (map Lit street_suffixes)))]"

definition rural_address_pattern :: rx where
  "rural_address_pattern = seqs
     [Grp 1 (alts (map Lit
        [''RR'', ''Rural Route'', ''Range Road'', ''Township Road'', ''Highway'', ''Hwy''])),
      ws0, Grp 2 (digits 1 None)]"

definition letter :: rx where \<comment> \<open>\<open>[A-Za-z]\<close>\<close>
  "letter = Rep [Range CHR ''A'' CHR ''Z'', Range CHR ''a'' CHR ''z''] 1 (Some 1)"

definition postal_code_pattern :: rx where
  "postal_code_pattern =
     Grp 1 (seqs [letter, digits 1 (Some 1), letter, ws0,
                  digits 1 (Some 1), letter, digits 1 (Some 1)])"

definition acreage_pattern :: rx where
  "acreage_pattern = seqs
     [Grp 1 (seqs [digits 1 None, Rep [One CHR ''.''] 0 (Some 1), digits 0 None]),
      ws0, Lit ''acre'', Rep [One CHR ''s''] 0 (Some 1)]"

subsection \<open>The records the parser builds\<close>

text \<open>
  The dictionaries of the parser have fixed keys, so they are records. A key that the
  code may leave out, or a value that may be \<open>None\<close>, is an \<open>option\<close>. The acreage
  is kept as a Python value: the policy engine compares it with numbers, and a value that
  is not a number raises there.
\<close>

record address_rec =
  addr_type :: string
  addr_components :: "(string \<times> string) list"
  full_address :: string

record legal_rec =
  legal_type :: string
  legal_components :: "(string \<times> string) list"
  full_description :: string

record location_rec =
  latitude :: real
  longitude :: real
  display_name :: string

record details_rec =
  acreage :: "pyval option"
  zoning_hints :: "string list option"
  development_intentions :: "string list option"
  infrastructure_mentions :: "string list option"

record raw_rec =
  raw_address :: string
  raw_legal_description :: string
  raw_additional_info :: string

record property_info =
  raw_input :: raw_rec
  parsed_address :: "address_rec option"
  parsed_legal :: "legal_rec option"
  coordinates :: "location_rec option"
  municipality_hints :: "string list"
  property_details :: details_rec

definition empty_details :: details_rec where
  "empty_details =
     \<lparr>acreage = None, zoning_hints = None, development_intentions = None,
      infrastructure_mentions = None\<rparr>"

text \<open>\<open>len(details)\<close>: the number of keys present.\<close>

definition len_details :: "details_rec \<Rightarrow> nat" where
  "len_details d =
     (if acreage d = None then 0 else 1) + (if zoning_hints d = None then 0 else 1) +
     (if development_intentions d = None then 0 else 1) +
     (if infrastructure_mentions d = None then 0 else 1)"

subsection \<open>\<open>_parse_address\<close>\<close>

definition parse_address :: "string \<Rightarrow> address_rec" where
  "parse_address a =
     (let parsed = \<lparr>addr_type = ''unknown'', addr_components = [], full_address = strip a\<rparr>;
          parsed = (case rsearch street_address_pattern a of
                      None \<Rightarrow> parsed
                    | Some street_match \<Rightarrow>
                        parsed\<lparr>addr_type := ''street'',
                               addr_components :=
                                 [(''number'', group street_match 1),
                                  (''street'', strip (group street_match 2))]\<rparr>);
          parsed = (case rsearch rural_address_pattern a of
                      None \<Rightarrow> parsed
                    | Some rural_match \<Rightarrow>
                        parsed\<lparr>addr_type := ''rural'',
                               addr_components :=
                                 [(''road_type'', group rural_match 1),
                                  (''road_number'', group rural_match 2)]\<rparr>)
      in (case rsearch postal_code_pattern a of
            None \<Rightarrow> parsed
          | Some postal_match \<Rightarrow>
              parsed\<lparr>addr_components :=
                AList.update ''postal_code'' (remove_spaces (upper (group postal_match 1)))
                  (addr_components parsed)\<rparr>))"

subsection \<open>\<open>_parse_legal_description\<close>\<close>

text \<open>The loop over the patterns, left at the first pattern that matches.\<close>

fun first_pattern :: "(string \<times> rx) list \<Rightarrow> string \<Rightarrow> (string \<times> caps) option" where
  "first_pattern [] s = None"
| "first_pattern ((pattern_name, pattern) # ps) s =
     (case rsearch pattern s of
        Some m \<Rightarrow> Some (pattern_name, m)
      | None \<Rightarrow> first_pattern ps s)"

definition legal_components_of :: "string \<Rightarrow> caps \<Rightarrow> (string \<times> string) list" where
  "legal_components_of pattern_name m =
     (if pattern_name = ''quarter_section'' then
        [(''quarter'', group m 1), (''section'', group m 2), (''township'', group m 3),
         (''range'', group m 4), (''meridian_direction'', group m 5),
         (''meridian'', group m 6)]
      else if pattern_name = ''lot_block'' then
        [(''lot'', group m 1), (''block'', group m 2), (''plan'', group m 3)]
      else if pattern_name = ''parcel'' then
        [(''parcel'', group m 1), (''plan'', group m 2)]
      else if pattern_name = ''section'' then
        [(''section'', group m 1), (''township'', group m 2), (''range'', group m 3),
         (''meridian_direction'', group m 4), (''meridian'', group m 5)]
      else [])"

definition parse_legal_description :: "string \<Rightarrow> legal_rec" where
  "parse_legal_description legal_desc =
     (let parsed = \<lparr>legal_type = ''unknown'', legal_components = [],
                     full_description = strip legal_desc\<rparr>
      in (case first_pattern legal_patterns legal_desc of
            None \<Rightarrow> parsed
          | Some (pattern_name, m) \<Rightarrow>
              parsed\<lparr>legal_type := pattern_name,
                     legal_components := legal_components_of pattern_name m\<rparr>))"

subsection \<open>\<open>_geocode_address\<close>\<close>

text \<open>
  The geocoding service is outside the program: \<open>geolocator\<close> is what
  \<open>self.geolocator.geocode(query, timeout=10)\<close> does for a query, a location, no
  location, or an exception. The two exceptions the code catches give no coordinates;
  any other one leaves the function.
\<close>

definition geocode_address ::
  "(string \<Rightarrow> pyerr + location_rec option) \<Rightarrow> string \<Rightarrow> pyerr + location_rec option" where
  "geocode_address geolocator a =
     (case geolocator (a @ '', Alberta, Canada'') of
        Inr (Some loc) \<Rightarrow> Inr (Some loc)
      | Inr None \<Rightarrow> Inr None
      | Inl GeocoderTimedOut \<Rightarrow> Inr None
      | Inl GeocoderServiceError \<Rightarrow> Inr None
      | Inl e \<Rightarrow> Inl e)"

subsection \<open>\<open>_extract_municipality_hints\<close>\<close>

definition municipalities :: "string list" where
  "municipalities =
     [''Red Deer'', ''Lacombe'', ''Ponoka'', ''Wetaskiwin'', ''Camrose'', ''Leduc'',
      ''Edmonton'', ''St. Albert'', ''Sherwood Park'', ''Fort Saskatchewan'',
      ''Morinville'', ''Legal'', ''Bon Accord'', ''Gibbons'', ''Redwater'',
      ''Smoky Lake'', ''Vilna'', ''Mundare'', ''Lamont'', ''Bruderheim'',
      ''Athabasca'', ''Boyle'', ''Westlock'', ''Barrhead'', ''Mayerthorpe'',
      ''Whitecourt'', ''Slave Lake'', ''High Prairie'', ''Valleyview'']"

definition counties :: "string list" where
  "counties =
     [''Lacombe County'', ''Ponoka County'', ''Wetaskiwin County'',
      ''Camrose County'', ''Leduc County'', ''Strathcona County'',
      ''Sturgeon County'', ''Parkland County'', ''Lac Ste. Anne County'',
      ''Barrhead County'', ''Westlock County'', ''Athabasca County'']"

definition extract_municipality_hints :: "string \<Rightarrow> string list" where
  "extract_municipality_hints t =
     (let all_locations = municipalities @ counties; text_lower = lower t
      in filter (\<lambda>location. str_in (lower location) text_lower) all_locations)"

subsection \<open>\<open>_extract_property_details\<close>\<close>

text \<open>
  \<open>float(text)\<close> on the text of group 1 of the acreage pattern, which is digits, then
  at most one point, then digits.
\<close>

definition nat_of_digits :: "string \<Rightarrow> nat" where
  "nat_of_digits s = foldl (\<lambda>n c. 10 * n + (py_ord c - 48)) 0 s"

definition float_of_decimal :: "string \<Rightarrow> real" where
  "float_of_decimal s =
     (let ip = takeWhile (\<lambda>c. c \<noteq> CHR ''.'') s;
          fp = drop 1 (dropWhile (\<lambda>c. c \<noteq> CHR ''.'') s)
      in real (nat_of_digits ip) + real (nat_of_digits fp) / 10 ^ length fp)"

text \<open>
  \<open>for keyword in keywords: if keyword in info.lower(): details.setdefault(key,
  []).append(keyword)\<close>: the key is present only when a keyword was found.
\<close>

definition scan_keywords :: "string list \<Rightarrow> string \<Rightarrow> string list option" where
  "scan_keywords keywords info =
     (let found = filter (\<lambda>keyword. str_in keyword (lower info)) keywords
      in if found = [] then None else Some found)"

definition zoning_keywords :: "string list" where
  "zoning_keywords = [''commercial'', ''residential'', ''rural'', ''agricultural'', ''industrial'']"

definition development_keywords :: "string list" where
  "development_keywords = [''develop'', ''cottages'', ''subdivision'', ''building'', ''construction'']"

definition infrastructure_keywords :: "string list" where
  "infrastructure_keywords = [''septic'', ''water'', ''power'', ''sewer'', ''gas'', ''internet'']"

definition extract_property_details :: "string \<Rightarrow> details_rec" where
  "extract_property_details info =
     \<lparr>acreage = (case rsearch acreage_pattern info of
                   None \<Rightarrow> None
                 | Some acreage_match \<Rightarrow> Some (PFloat (float_of_decimal (group acreage_match 1)))),
      zoning_hints = scan_keywords zoning_keywords info,
      development_intentions = scan_keywords development_keywords info,
      infrastructure_mentions = scan_keywords infrastructure_keywords info\<rparr>"

subsection \<open>\<open>_is_valid_property_info\<close> and \<open>parse_property_info\<close>\<close>

definition has_address :: "property_info \<Rightarrow> bool" where
  "has_address p =
     (case parsed_address p of None \<Rightarrow> False | Some pa \<Rightarrow> addr_type pa \<noteq> ''unknown'')"

definition has_legal :: "property_info \<Rightarrow> bool" where
  "has_legal p =
     (case parsed_legal p of None \<Rightarrow> False | Some pl \<Rightarrow> legal_type pl \<noteq> ''unknown'')"

definition has_coordinates :: "property_info \<Rightarrow> bool" where
  "has_coordinates p = (coordinates p \<noteq> None)"

definition has_municipality_hints :: "property_info \<Rightarrow> bool" where
  "has_municipality_hints p = (length (municipality_hints p) > 0)"

definition has_property_details :: "property_info \<Rightarrow> bool" where
  "has_property_details p = (len_details (property_details p) > 0)"

definition has_raw_input :: "property_info \<Rightarrow> bool" where
  "has_raw_input p =
     (raw_address (raw_input p) \<noteq> [] \<or> raw_legal_description (raw_input p) \<noteq> [] \<or>
      raw_additional_info (raw_input p) \<noteq> [])"

definition is_valid_property_info :: "property_info \<Rightarrow> bool" where
  "is_valid_property_info p =
     (has_address p \<or> has_legal p \<or> has_coordinates p \<or> has_municipality_hints p \<or>
      has_property_details p \<or> has_raw_input p)"

text \<open>
  \<open>collect_property_info\<close> is the body of \<open>parse_property_info\<close> up to its last line:
  the dictionary as it stands when the validity test reads it.
\<close>

definition collect_property_info ::
  "(string \<Rightarrow> pyerr + location_rec option) \<Rightarrow> string \<Rightarrow> string \<Rightarrow> string
     \<Rightarrow> pyerr + property_info" where
  "collect_property_info geolocator a ld info =
     (case (if a \<noteq> [] then geocode_address geolocator a else Inr None) of
        Inl e \<Rightarrow> Inl e
      | Inr coords \<Rightarrow>
          Inr \<lparr>raw_input = \<lparr>raw_address = a, raw_legal_description = ld,
                             raw_additional_info = info\<rparr>,
               parsed_address = (if a \<noteq> [] then Some (parse_address a) else None),
               parsed_legal = (if ld \<noteq> [] then Some (parse_legal_description ld) else None),
               coordinates = coords,
               municipality_hints = extract_municipality_hints (a @ '' '' @ ld @ '' '' @ info),
               property_details =
                 (if info \<noteq> [] then extract_property_details info else empty_details)\<rparr>)"

definition parse_property_info ::
  "(string \<Rightarrow> pyerr + location_rec option) \<Rightarrow> string \<Rightarrow> string \<Rightarrow> string
     \<Rightarrow> pyerr + property_info option" where
  "parse_property_info geolocator a ld info =
     (case collect_property_info geolocator a ld info of
        Inl e \<Rightarrow> Inl e
      | Inr p \<Rightarrow> Inr (if is_valid_property_info p then Some p else None))"

section \<open>The heap\<close>

text \<open>
  The municipality table is a dictionary of dictionaries, and the resolver hands out
  copies of its records that it then writes to. Which object a write reaches is what the
  claim about the table depends on, so dictionaries live in a heap: a list of
  dictionary objects, the address of an object being its position. A new object goes to
  the end. A computation takes the heap and returns a result or an exception, and the
  heap as it left it.
\<close>

type_synonym heap = "pydict list"

type_synonym 'a py = "heap \<Rightarrow> (pyerr + 'a) \<times> heap"

definition ret :: "'a \<Rightarrow> 'a py" where
  "ret x h = (Inr x, h)"

definition raise :: "pyerr \<Rightarrow> 'a py" where
  "raise e h = (Inl e, h)"

definition pbind :: "'a py \<Rightarrow> ('a \<Rightarrow> 'b py) \<Rightarrow> 'b py" where
  "pbind m f h = (case m h of (Inl e, h') \<Rightarrow> (Inl e, h') | (Inr x, h') \<Rightarrow> f x h')"

text \<open>\<open>{...}\<close>: a new dictionary object.\<close>

definition new_dict :: "pydict \<Rightarrow> nat py" where
  "new_dict d h = (Inr (length h), h @ [d])"

text \<open>
  The dictionary a value is. A value of another type has no dictionary method
  (\<open>AttributeError\<close>); a reference always points into the heap in Python, and one that
  does not is an error here.
\<close>

definition the_dict :: "pyval \<Rightarrow> string \<Rightarrow> (nat \<times> pydict) py" where
  "the_dict v attr h =
     (case v of
        PRef a \<Rightarrow>
          (if a < length h then (Inr (a, h ! a), h)
           else (Inl (OtherError ''no object at this address''), h))
      | _ \<Rightarrow> (Inl (AttributeError attr), h))"

text \<open>\<open>v.items()\<close>, \<open>v.keys()\<close> and \<open>v.get(k)\<close>.\<close>

definition dict_items :: "pyval \<Rightarrow> (string \<times> pyval) list py" where
  "dict_items v = pbind (the_dict v ''items'') (\<lambda>(a, d). ret d)"

definition dict_keys :: "pyval \<Rightarrow> string list py" where
  "dict_keys v = pbind (the_dict v ''keys'') (\<lambda>(a, d). ret (map fst d))"

definition dict_get :: "pyval \<Rightarrow> string \<Rightarrow> pyval option py" where
  "dict_get v k = pbind (the_dict v ''get'') (\<lambda>(a, d). ret (map_of d k))"

text \<open>\<open>v[k]\<close> with a string key: \<open>KeyError\<close> on a dictionary without the key,
  \<open>TypeError\<close> on a value that is not a dictionary.\<close>

definition dict_getitem :: "pyval \<Rightarrow> string \<Rightarrow> pyval py" where
  "dict_getitem v k h =
     (case v of
        PRef a \<Rightarrow>
          (if a < length h then
             (case map_of (h ! a) k of
                Some x \<Rightarrow> (Inr x, h)
              | None \<Rightarrow> (Inl (KeyError k), h))
           else (Inl (OtherError ''no object at this address''), h))
      | _ \<Rightarrow> (Inl (TypeError ''subscript''), h))"

text \<open>
  \<open>v.copy()\<close>: a new dictionary with the same keys and the same values, so a value that
  is a reference is shared with the original. Every call site assigns to a string key
  of the copy in its next statement; a list has \<open>copy\<close> but no string keys, and the
  \<open>TypeError\<close> of that assignment is raised here.
\<close>

definition dict_copy :: "pyval \<Rightarrow> nat py" where
  "dict_copy v h =
     (case v of
        PRef a \<Rightarrow>
          (if a < length h then (Inr (length h), h @ [h ! a])
           else (Inl (OtherError ''no object at this address''), h))
      | PStrs xs \<Rightarrow> (Inl (TypeError ''list indices must be integers or slices, not str''), h)
      | _ \<Rightarrow> (Inl (AttributeError ''copy''), h))"

text \<open>\<open>d[k] = v\<close> on the dictionary at address \<open>a\<close>.\<close>

definition dict_setitem :: "nat \<Rightarrow> string \<Rightarrow> pyval \<Rightarrow> unit py" where
  "dict_setitem a k v h =
     (if a < length h then (Inr (), h[a := AList.update k v (h ! a)])
      else (Inl (OtherError ''no object at this address''), h))"

text \<open>The truth value of a value, as \<open>if v:\<close> reads it.\<close>

definition truthy :: "heap \<Rightarrow> pyval \<Rightarrow> bool" where
  "truthy h v =
     (case v of
        PNone \<Rightarrow> False
      | PBool b \<Rightarrow> b
      | PInt i \<Rightarrow> i \<noteq> 0
      | PFloat x \<Rightarrow> x \<noteq> 0
      | PStr s \<Rightarrow> s \<noteq> []
      | PStrs xs \<Rightarrow> xs \<noteq> []
      | PRef a \<Rightarrow> a < length h \<and> h ! a \<noteq> [])"

text \<open>The truth value of an \<open>Optional[Dict]\<close> result: \<open>None\<close> and the empty dictionary
  are false.\<close>

definition truthy_result :: "heap \<Rightarrow> nat option \<Rightarrow> bool" where
  "truthy_result h r = (case r of None \<Rightarrow> False | Some a \<Rightarrow> truthy h (PRef a))"

section \<open>municipality_lookup.py\<close>

subsection \<open>\<open>_load_municipalities_data\<close>\<close>

text \<open>
  One record of the table: its \<open>coordinates\<close> and \<open>contact_info\<close> dictionaries, then
  the record itself, with the keys in the order of the source. Counties have no
  \<open>population\<close>, and only two cities have a \<open>zoning_map\<close>.
\<close>

definition municipality_entry ::
  "string \<Rightarrow> int option \<Rightarrow> real \<Rightarrow> real \<Rightarrow> string \<Rightarrow> string \<Rightarrow> string \<Rightarrow> string option
     \<Rightarrow> string \<Rightarrow> string \<Rightarrow> nat py" where
  "municipality_entry typ population lat lon website planning_dept land_use_bylaw
       zoning_map phone addr =
     pbind (new_dict [(''lat'', PFloat lat), (''lon'', PFloat lon)]) (\<lambda>coords.
     pbind (new_dict [(''phone'', PStr phone), (''address'', PStr addr)]) (\<lambda>contact.
     new_dict
       ([(''type'', PStr typ)] @
        (case population of None \<Rightarrow> [] | Some n \<Rightarrow> [(''population'', PInt n)]) @
        [(''coordinates'', PRef coords), (''website'', PStr website),
         (''planning_dept'', PStr planning_dept),
         (''land_use_bylaw'', PStr land_use_bylaw)] @
        (case zoning_map of None \<Rightarrow> [] | Some z \<Rightarrow> [(''zoning_map'', PStr z)]) @
        [(''contact_info'', PRef contact)])))"

text \<open>A dictionary from names to records, built entry by entry.\<close>

fun named_entries :: "(string \<times> nat py) list \<Rightarrow> pydict py" where
  "named_entries [] = ret []"
| "named_entries ((n, entry) # rest) =
     pbind entry (\<lambda>a. pbind (named_entries rest) (\<lambda>d. ret ((n, PRef a) # d)))"

definition cities_table :: "(string \<times> nat py) list" where
  "cities_table =
     [(''Red Deer'', municipality_entry ''city'' (Some 100844) 52.2681 (-113.8112)
          ''https://www.reddeer.ca'' ''planning@reddeer.ca''
          ''https://www.reddeer.ca/city-government/bylaws-and-policies/land-use-bylaw/''
          (Some ''https://www.reddeer.ca/city-services/planning-and-development/zoning-maps/'')
          ''403-342-8111'' ''4914 48th Ave, Red Deer, AB T4N 3T4''),
      (''Edmonton'', municipality_entry ''city'' (Some 1010899) 53.5461 (-113.4938)
          ''https://www.edmonton.ca'' ''development@edmonton.ca''
          ''https://www.edmonton.ca/city_government/bylaws/zoning-bylaw''
          (Some ''https://maps.edmonton.ca/map.aspx?id=ZoningBylaw'')
          ''311'' ''1 Sir Winston Churchill Square, Edmonton, AB T5J 2R7''),
      (''Lacombe'', municipality_entry ''city'' (Some 13057) 52.4675 (-113.7364)
          ''https://www.lacombe.ca'' ''planning@lacombe.ca''
          ''https://www.lacombe.ca/government/bylaws/'' None
          ''403-782-6666'' ''5432 56 Ave, Lacombe, AB T4L 1E9''),
      (''Wetaskiwin'', municipality_entry ''city'' (Some 12655) 52.9692 (-113.3747)
          ''https://www.wetaskiwin.ca'' ''planning@wetaskiwin.ca''
          ''https://www.wetaskiwin.ca/government/bylaws-policies/'' None
          ''780-361-4400'' ''4905 50 Ave, Wetaskiwin, AB T9A 0S7''),
      (''Camrose'', municipality_entry ''city'' (Some 18742) 53.0167 (-112.8333)
          ''https://www.camrose.ca'' ''planning@camrose.ca''
          ''https://www.camrose.ca/government/bylaws/'' None
          ''780-672-4428'' ''4703 50 Ave, Camrose, AB T4V 0P7''),
      (''Athabasca'', municipality_entry ''town'' (Some 2965) 54.7186 (-113.2856)
          ''https://www.athabasca.ca'' ''cao@athabasca.ca''
          ''https://www.athabasca.ca/government/bylaws/'' None
          ''780-675-2273'' ''4904 50 St, Athabasca, AB T9S 1E2'')]"

definition counties_table :: "(string \<times> nat py) list" where
  "counties_table =
     [(''Lacombe County'', municipality_entry ''county'' None 52.4000 (-113.8000)
          ''https://www.lacombecounty.com'' ''planning@lacombecounty.com''
          ''https://www.lacombecounty.com/government/bylaws/'' None
          ''403-782-8060'' ''4611 52 Ave, Lacombe, AB T4L 1G3''),
      (''Ponoka County'', municipality_entry ''county'' None 52.6833 (-113.5833)
          ''https://www.ponokacounty.com'' ''planning@ponokacounty.com''
          ''https://www.ponokacounty.com/government/bylaws/'' None
          ''403-783-3333'' ''5506 57 Ave, Ponoka, AB T4J 1A1''),
      (''Wetaskiwin County'', municipality_entry ''county'' None 53.0000 (-113.5000)
          ''https://www.county.wetaskiwin.ab.ca'' ''planning@county.wetaskiwin.ab.ca''
          ''https://www.county.wetaskiwin.ab.ca/government/bylaws/'' None
          ''780-352-3321''
          ''Multi-Municipal Building, 4905 51 Ave, Wetaskiwin, AB T9A 1P2''),
      (''Camrose County'', municipality_entry ''county'' None 53.0000 (-112.5000)
          ''https://www.camrosecounty.ab.ca'' ''planning@camrosecounty.ab.ca''
          ''https://www.camrosecounty.ab.ca/government/bylaws/'' None
          ''780-672-4446'' ''#10, 3755 43 Ave, Camrose, AB T4V 3S8''),
      (''Leduc County'', municipality_entry ''county'' None 53.2667 (-113.5500)
          ''https://www.leduc-county.com'' ''planning@leduc-county.com''
          ''https://www.leduc-county.com/government/bylaws/'' None
          ''780-955-3555'' ''1101 5 St, Nisku, AB T9E 2X3''),
      (''Strathcona County'', municipality_entry ''county'' None 53.5167 (-113.2000)
          ''https://www.strathcona.ca'' ''planning@strathcona.ca''
          ''https://www.strathcona.ca/council-county/bylaws/'' None
          ''780-464-8111'' ''2001 Sherwood Dr, Sherwood Park, AB T8A 3W7''),
      (''Sturgeon County'', municipality_entry ''county'' None 53.8000 (-113.6000)
          ''https://www.sturgeoncounty.ca'' ''planning@sturgeoncounty.ca''
          ''https://www.sturgeoncounty.ca/government/bylaws/'' None
          ''780-939-4321'' ''9613 100 St, Morinville, AB T8R 1L9''),
      (''Parkland County'', municipality_entry ''county'' None 53.7000 (-114.0000)
          ''https://www.parklandcounty.com'' ''planning@parklandcounty.com''
          ''https://www.parklandcounty.com/government/bylaws/'' None
          ''780-968-8888'' ''53109A Hwy 779, Parkland County, AB T7Z 1R1''),
      (''Athabasca County'', municipality_entry ''county'' None 54.5000 (-113.0000)
          ''https://www.athabascacounty.com'' ''planning@athabascacounty.com''
          ''https://www.athabascacounty.com/government/bylaws/'' None
          ''780-675-2273'' ''4904 50 St, Athabasca, AB T9S 1E2'')]"

definition load_municipalities_data :: "nat py" where
  "load_municipalities_data =
     pbind (named_entries cities_table) (\<lambda>cities_dict.
     pbind (new_dict cities_dict) (\<lambda>cities.
     pbind (named_entries counties_table) (\<lambda>counties_dict.
     pbind (new_dict counties_dict) (\<lambda>counties.
     new_dict [(''cities'', PRef cities), (''counties'', PRef counties)]))))"

text \<open>The \<open>MunicipalityLookup\<close> object: the address of its table and its list of regions.\<close>

record lookup =
  municipalities_data :: nat
  supported_regions :: "string list"

fun extend_keys :: "pyval list \<Rightarrow> string list \<Rightarrow> string list py" where
  "extend_keys [] regions = ret regions"
| "extend_keys (category # rest) regions =
     pbind (dict_keys category) (\<lambda>ks. extend_keys rest (regions @ ks))"

definition get_supported_regions :: "nat \<Rightarrow> string list py" where
  "get_supported_regions md =
     pbind (dict_items (PRef md)) (\<lambda>items. extend_keys (map snd items) [])"

definition init_lookup :: "lookup py" where
  "init_lookup =
     pbind load_municipalities_data (\<lambda>md.
     pbind (get_supported_regions md) (\<lambda>regions.
     ret \<lparr>municipalities_data = md, supported_regions = regions\<rparr>))"

subsection \<open>\<open>_find_by_name\<close>\<close>

text \<open>
  The loop over one category of the table: the first entry whose lower-case name is
  the lower-case query, or occurs in it, is copied, and the copy gets the entry's name
  and the category.
\<close>

fun find_in :: "string \<Rightarrow> string \<Rightarrow> (string \<times> pyval) list \<Rightarrow> nat option py" where
  "find_in category name_lower [] = ret None"
| "find_in category name_lower ((entry_name, entry_data) # rest) =
     (if lower entry_name = name_lower \<or> str_in (lower entry_name) name_lower then
        pbind (dict_copy entry_data) (\<lambda>result.
        pbind (dict_setitem result ''name'' (PStr entry_name)) (\<lambda>_.
        pbind (dict_setitem result ''category'' (PStr category)) (\<lambda>_.
        ret (Some result))))
      else find_in category name_lower rest)"

definition find_by_name :: "lookup \<Rightarrow> string \<Rightarrow> nat option py" where
  "find_by_name self name =
     (let name_lower = lower name in
      pbind (dict_getitem (PRef (municipalities_data self)) ''cities'') (\<lambda>cities.
      pbind (dict_items cities) (\<lambda>city_items.
      pbind (find_in ''city'' name_lower city_items) (\<lambda>r.
        case r of
          Some result \<Rightarrow> ret (Some result)
        | None \<Rightarrow>
            pbind (dict_getitem (PRef (municipalities_data self)) ''counties'') (\<lambda>counties.
            pbind (dict_items counties) (\<lambda>county_items.
            find_in ''county'' name_lower county_items))))))"

subsection \<open>\<open>_find_by_coordinates\<close>\<close>

text \<open>
  \<open>geodesic\<close> is \<open>geopy.distance.geodesic((lat, lon), (a, b)).kilometers\<close>, a library
  outside the program: it is a parameter, given the query point and the two values read
  from the table as they are. \<open>closest_distance\<close> starts at infinity, which is
  \<open>None\<close> here; a distance below 50 is below infinity.
\<close>

definition rstrip_s :: "string \<Rightarrow> string" where \<comment> \<open>\<open>s.rstrip('s')\<close>\<close>
  "rstrip_s s = rev (dropWhile (\<lambda>c. c = CHR ''s'') (rev s))"

definition below_closest :: "real \<Rightarrow> real option \<Rightarrow> bool" where
  "below_closest distance closest_distance =
     (case closest_distance of None \<Rightarrow> True | Some c \<Rightarrow> distance < c)"

fun scan_category ::
  "(real \<Rightarrow> real \<Rightarrow> pyval \<Rightarrow> pyval \<Rightarrow> pyerr + real) \<Rightarrow> real \<Rightarrow> real \<Rightarrow> string
     \<Rightarrow> (string \<times> pyval) list \<Rightarrow> nat option \<times> real option
     \<Rightarrow> (nat option \<times> real option) py" where
  "scan_category geodesic lat lon category_name [] closest = ret closest"
| "scan_category geodesic lat lon category_name
       ((municipality_name, municipality_data) # rest) closest =
     pbind (dict_get municipality_data ''coordinates'') (\<lambda>muni_coords h.
       case muni_coords of
         None \<Rightarrow> scan_category geodesic lat lon category_name rest closest h
       | Some mc \<Rightarrow>
           if \<not> truthy h mc then scan_category geodesic lat lon category_name rest closest h
           else
             pbind (dict_getitem mc ''lat'') (\<lambda>mlat.
             pbind (dict_getitem mc ''lon'') (\<lambda>mlon.
               case geodesic lat lon mlat mlon of
                 Inl e \<Rightarrow> raise e
               | Inr distance \<Rightarrow>
                   if distance < 50 \<and> below_closest distance (snd closest) then
                     pbind (dict_copy municipality_data) (\<lambda>result.
                     pbind (dict_setitem result ''name'' (PStr municipality_name)) (\<lambda>_.
                     pbind (dict_setitem result ''category'' (PStr (rstrip_s category_name)))
                       (\<lambda>_.
                     pbind (dict_setitem result ''distance_km'' (PFloat distance)) (\<lambda>_.
                     scan_category geodesic lat lon category_name rest
                       (Some result, Some distance)))))
                   else scan_category geodesic lat lon category_name rest closest)) h)"

fun scan_categories ::
  "(real \<Rightarrow> real \<Rightarrow> pyval \<Rightarrow> pyval \<Rightarrow> pyerr + real) \<Rightarrow> real \<Rightarrow> real
     \<Rightarrow> (string \<times> pyval) list \<Rightarrow> nat option \<times> real option
     \<Rightarrow> (nat option \<times> real option) py" where
  "scan_categories geodesic lat lon [] closest = ret closest"
| "scan_categories geodesic lat lon ((category_name, category_data) # rest) closest =
     pbind (dict_items category_data) (\<lambda>entries.
     pbind (scan_category geodesic lat lon category_name entries closest) (\<lambda>closest'.
     scan_categories geodesic lat lon rest closest'))"

definition find_by_coordinates ::
  "(real \<Rightarrow> real \<Rightarrow> pyval \<Rightarrow> pyval \<Rightarrow> pyerr + real) \<Rightarrow> lookup \<Rightarrow> real \<Rightarrow> real
     \<Rightarrow> nat option py" where
  "find_by_coordinates geodesic self lat lon =
     pbind (dict_items (PRef (municipalities_data self))) (\<lambda>categories.
     pbind (scan_categories geodesic lat lon categories (None, None))
       (\<lambda>(closest_municipality, closest_distance). ret closest_municipality))"

subsection \<open>\<open>_find_by_legal_description\<close>\<close>

text \<open>
  \<open>int(text)\<close>: white space around the number is dropped, a sign may lead, and single
  underscores may stand between digits. \<open>None\<close> is the \<open>ValueError\<close> the code catches.
\<close>

fun int_digits :: "bool \<Rightarrow> string \<Rightarrow> bool" where
  "int_digits after_digit [] = after_digit"
| "int_digits after_digit (c # cs) =
     (if isdigit c then int_digits True cs
      else c = CHR ''_'' \<and> after_digit \<and> int_digits False cs)"

definition py_int :: "string \<Rightarrow> int option" where
  "py_int t =
     (let s = strip t;
          negative = (case s of c # _ \<Rightarrow> c = CHR ''-'' | [] \<Rightarrow> False);
          body = (case s of c # r \<Rightarrow> if c = CHR ''-'' \<or> c = CHR ''+'' then r else s | [] \<Rightarrow> s)
      in if int_digits False body then
           Some ((if negative then - 1 else 1) *
                 int (nat_of_digits (filter (\<lambda>c. c \<noteq> CHR ''_'') body)))
         else None)"

text \<open>
  The township and the range as the function reads them: the type must be
  \<open>quarter_section\<close> or \<open>section\<close>, both components must be present and not empty,
  and both must be integers. \<open>None\<close> is every path of the source that reaches the
  final \<open>return None\<close> without testing a band.
\<close>

definition township_range :: "legal_rec \<Rightarrow> (int \<times> int) option" where
  "township_range legal_desc =
     (let components = legal_components legal_desc in
      if legal_type legal_desc \<in> set [''quarter_section'', ''section''] then
        (case (map_of components ''township'', map_of components ''range'') of
           (Some township, Some range_num) \<Rightarrow>
             if township \<noteq> [] \<and> range_num \<noteq> [] then
               (case py_int township of
                  None \<Rightarrow> None
                | Some township_int \<Rightarrow>
                    (case py_int range_num of
                       None \<Rightarrow> None
                     | Some range_int \<Rightarrow> Some (township_int, range_int)))
             else None
         | _ \<Rightarrow> None)
      else None)"

text \<open>The three conditions of the \<open>if\<close>/\<open>elif\<close> chain, as the source writes them.\<close>

definition red_deer_band :: "int \<Rightarrow> int \<Rightarrow> bool" where
  "red_deer_band township_int range_int =
     (40 \<le> township_int \<and> township_int \<le> 50 \<and> 20 \<le> range_int \<and> range_int \<le> 30)"

definition edmonton_band :: "int \<Rightarrow> int \<Rightarrow> bool" where
  "edmonton_band township_int range_int =
     (50 \<le> township_int \<and> township_int \<le> 60 \<and> 20 \<le> range_int \<and> range_int \<le> 30)"

definition athabasca_band :: "int \<Rightarrow> int \<Rightarrow> bool" where
  "athabasca_band township_int range_int =
     (60 \<le> township_int \<and> township_int \<le> 70 \<and> 20 \<le> range_int \<and> range_int \<le> 30)"

definition find_by_legal_description :: "lookup \<Rightarrow> legal_rec \<Rightarrow> nat option py" where
  "find_by_legal_description self legal_desc =
     (case township_range legal_desc of
        None \<Rightarrow> ret None
      | Some (township_int, range_int) \<Rightarrow>
          if red_deer_band township_int range_int then find_by_name self ''Red Deer''
          else if edmonton_band township_int range_int then find_by_name self ''Edmonton''
          else if athabasca_band township_int range_int then find_by_name self ''Athabasca''
          else ret None)"

subsection \<open>\<open>_extract_location_hints\<close> and \<open>_find_by_address_components\<close>\<close>

definition starts_upper :: "string \<Rightarrow> bool" where \<comment> \<open>\<open>word[0].isupper()\<close>\<close>
  "starts_upper w = (case w of [] \<Rightarrow> False | c # _ \<Rightarrow> isupper c)"

fun hints_of_words :: "string list \<Rightarrow> string list" where
  "hints_of_words [] = []"
| "hints_of_words (w # ws) =
     (if starts_upper w \<and> length w > 3 then
        w # (case ws of
               [] \<Rightarrow> []
             | nxt # _ \<Rightarrow> if starts_upper nxt then [w @ '' '' @ nxt] else [])
      else []) @ hints_of_words ws"

definition extract_location_hints :: "string \<Rightarrow> string list" where
  "extract_location_hints t = hints_of_words (split t)"

text \<open>
  \<open>for hint in hints: municipality = self._find_by_name(hint); if municipality: return
  municipality\<close>, the loop of \<open>find_municipality\<close>'s first method and of
  \<open>_find_by_address_components\<close>.
\<close>

fun first_by_name :: "lookup \<Rightarrow> string list \<Rightarrow> nat option py" where
  "first_by_name self [] = ret None"
| "first_by_name self (hint # hints) =
     pbind (find_by_name self hint) (\<lambda>municipality h.
       if truthy_result h municipality then (Inr municipality, h)
       else first_by_name self hints h)"

definition find_by_address_components :: "lookup \<Rightarrow> address_rec \<Rightarrow> nat option py" where
  "find_by_address_components self addr =
     first_by_name self (extract_location_hints (full_address addr))"

subsection \<open>\<open>find_municipality\<close>\<close>

text \<open>The four methods, each tried only when the ones before it gave nothing.\<close>

definition method4 :: "lookup \<Rightarrow> property_info \<Rightarrow> nat option py" where
  "method4 self pinfo =
     (case parsed_address pinfo of
        None \<Rightarrow> ret None
      | Some addr \<Rightarrow>
          pbind (find_by_address_components self addr) (\<lambda>municipality h.
            if truthy_result h municipality then (Inr municipality, h) else (Inr None, h)))"

definition method3 :: "lookup \<Rightarrow> property_info \<Rightarrow> nat option py" where
  "method3 self pinfo =
     (case parsed_legal pinfo of
        None \<Rightarrow> method4 self pinfo
      | Some legal_desc \<Rightarrow>
          if legal_type legal_desc \<noteq> ''unknown'' then
            pbind (find_by_legal_description self legal_desc) (\<lambda>municipality h.
              if truthy_result h municipality then (Inr municipality, h)
              else method4 self pinfo h)
          else method4 self pinfo)"

definition method2 ::
  "(real \<Rightarrow> real \<Rightarrow> pyval \<Rightarrow> pyval \<Rightarrow> pyerr + real) \<Rightarrow> lookup \<Rightarrow> property_info
     \<Rightarrow> nat option py" where
  "method2 geodesic self pinfo =
     (case coordinates pinfo of
        None \<Rightarrow> method3 self pinfo
      | Some coords \<Rightarrow>
          pbind (find_by_coordinates geodesic self (latitude coords) (longitude coords))
            (\<lambda>municipality h.
              if truthy_result h municipality then (Inr municipality, h)
              else method3 self pinfo h))"

definition find_municipality ::
  "(real \<Rightarrow> real \<Rightarrow> pyval \<Rightarrow> pyval \<Rightarrow> pyerr + real) \<Rightarrow> lookup \<Rightarrow> property_info
     \<Rightarrow> nat option py" where
  "find_municipality geodesic self pinfo =
     pbind (first_by_name self (municipality_hints pinfo)) (\<lambda>municipality h.
       if truthy_result h municipality then (Inr municipality, h)
       else method2 geodesic self pinfo h)"

subsection \<open>\<open>get_supported_municipalities\<close> and \<open>get_municipality_details\<close>\<close>

fun copy_category :: "string \<Rightarrow> (string \<times> pyval) list \<Rightarrow> nat list \<Rightarrow> nat list py" where
  "copy_category category_name [] acc = ret acc"
| "copy_category category_name ((municipality_name, municipality_data) # rest) acc =
     pbind (dict_copy municipality_data) (\<lambda>municipality.
     pbind (dict_setitem municipality ''name'' (PStr municipality_name)) (\<lambda>_.
     pbind (dict_setitem municipality ''category'' (PStr (rstrip_s category_name))) (\<lambda>_.
     copy_category category_name rest (acc @ [municipality]))))"

fun copy_categories :: "(string \<times> pyval) list \<Rightarrow> nat list \<Rightarrow> nat list py" where
  "copy_categories [] acc = ret acc"
| "copy_categories ((category_name, category_data) # rest) acc =
     pbind (dict_items category_data) (\<lambda>entries.
     pbind (copy_category category_name entries acc) (\<lambda>acc'.
     copy_categories rest acc'))"

text \<open>The sort key \<open>x['name']\<close>; every dictionary of the list was given a string name.\<close>

definition name_key :: "heap \<Rightarrow> nat \<Rightarrow> string" where
  "name_key h a = (case map_of (h ! a) ''name'' of Some (PStr n) \<Rightarrow> n | _ \<Rightarrow> [])"

definition get_supported_municipalities :: "lookup \<Rightarrow> nat list py" where
  "get_supported_municipalities self =
     pbind (dict_items (PRef (municipalities_data self))) (\<lambda>categories.
     pbind (copy_categories categories []) (\<lambda>municipalities h.
       (Inr (sort_key (name_key h) municipalities), h)))"

definition get_municipality_details :: "lookup \<Rightarrow> string \<Rightarrow> nat option py" where
  "get_municipality_details self municipality_name =
     pbind (find_by_name self municipality_name) (\<lambda>municipality h.
       if truthy_result h municipality then
         (case municipality of
            None \<Rightarrow> (Inr None, h)
          | Some m \<Rightarrow>
              (pbind (dict_setitem m ''supported_services''
                  (PStrs [''Land Use Bylaw Information'', ''Zoning Maps'',
                          ''Development Permits'', ''Subdivision Applications'',
                          ''Planning Consultation''])) (\<lambda>_.
               pbind (new_dict [(''development_permit'', PStr ''4-6 weeks''),
                                (''subdivision'', PStr ''3-6 months''),
                                (''rezoning'', PStr ''6-12 months'')]) (\<lambda>times.
               pbind (dict_setitem m ''typical_processing_times'' (PRef times)) (\<lambda>_.
               ret (Some m))))) h)
       else (Inr municipality, h))"

section \<open>policy_retrieval.py\<close>

subsection \<open>Numbers among Python values\<close>

text \<open>
  \<open>acreage > 5\<close> and \<open>acreage >= 14\<close> are defined when the acreage is a number (a
  \<open>bool\<close> counts as 0 or 1) and raise \<open>TypeError\<close> otherwise. \<open>num_of\<close> is the number
  a value is, if it is one.
\<close>

definition num_of :: "pyval \<Rightarrow> real option" where
  "num_of v =
     (case v of
        PInt i \<Rightarrow> Some (real_of_int i)
      | PFloat x \<Rightarrow> Some x
      | PBool b \<Rightarrow> Some (if b then 1 else 0)
      | _ \<Rightarrow> None)"

definition type_name :: "pyval \<Rightarrow> string" where
  "type_name v =
     (case v of
        PNone \<Rightarrow> ''NoneType'' | PBool b \<Rightarrow> ''bool'' | PInt i \<Rightarrow> ''int''
      | PFloat x \<Rightarrow> ''float'' | PStr s \<Rightarrow> ''str'' | PStrs xs \<Rightarrow> ''list''
      | PRef a \<Rightarrow> ''dict'')"

definition quoted :: "string \<Rightarrow> string" where
  "quoted s = [CHR 0x27] @ s @ [CHR 0x27]"

definition not_supported :: "string \<Rightarrow> pyval \<Rightarrow> pyerr" where
  "not_supported operator v =
     TypeError (quoted operator @ '' not supported between instances of '' @
                quoted (type_name v) @ '' and '' @ quoted ''int'')"

definition py_gt :: "pyval \<Rightarrow> int \<Rightarrow> pyerr + bool" where
  "py_gt v n =
     (case num_of v of
        Some x \<Rightarrow> Inr (x > real_of_int n)
      | None \<Rightarrow> Inl (not_supported ''>'' v))"

text \<open>\<open>int(x)\<close> on a float rounds towards zero.\<close>

definition py_trunc :: "real \<Rightarrow> int" where
  "py_trunc x = (if x \<ge> 0 then \<lfloor>x\<rfloor> else \<lceil>x\<rceil>)"

text \<open>\<open>str(e)\<close> of an exception: its message.\<close>

definition str_err :: "pyerr \<Rightarrow> string" where
  "str_err e =
     (case e of
        TypeError m \<Rightarrow> m | KeyError m \<Rightarrow> m | ValueError m \<Rightarrow> m | AttributeError m \<Rightarrow> m
      | GeocoderTimedOut \<Rightarrow> [] | GeocoderServiceError \<Rightarrow> [] | OtherError m \<Rightarrow> m)"

text \<open>\<open>str(n)\<close> of an integer: its decimal digits.\<close>

fun digits_of_nat :: "nat \<Rightarrow> string" where
  "digits_of_nat n =
     (if n < 10 then [char_of (48 + n)]
      else digits_of_nat (n div 10) @ [char_of (48 + n mod 10)])"

definition str_int :: "int \<Rightarrow> string" where
  "str_int i = (if i < 0 then CHR ''-'' # digits_of_nat (nat (- i)) else digits_of_nat (nat i))"

subsection \<open>The three lookup tables\<close>

definition get_typical_setbacks :: "string \<Rightarrow> (string \<times> string) list" where
  "get_typical_setbacks z =
     (if str_in ''R1'' z \<or> str_in ''Single Family'' z then
        [(''front'', ''7.5 meters''), (''rear'', ''7.5 meters''), (''side'', ''1.5 meters'')]
      else if str_in ''RC'' z \<or> str_in ''Rural Commercial'' z then
        [(''front'', ''15 meters''), (''rear'', ''15 meters''), (''side'', ''7.5 meters'')]
      else if str_in ''RUR'' z \<or> str_in ''Rural'' z then
        [(''front'', ''30 meters''), (''rear'', ''15 meters''), (''side'', ''15 meters'')]
      else
        [(''front'', ''6 meters''), (''rear'', ''6 meters''), (''side'', ''3 meters'')])"

definition get_density_restrictions :: "string \<Rightarrow> (string \<times> string) list" where
  "get_density_restrictions z =
     (if str_in ''RC'' z \<or> str_in ''Rural Commercial'' z then
        [(''maximum_site_coverage'', ''40%''), (''maximum_floor_area_ratio'', ''0.5''),
         (''minimum_lot_size'', ''2 hectares'')]
      else if str_in ''RUR'' z \<or> str_in ''Rural'' z then
        [(''maximum_site_coverage'', ''25%''), (''minimum_lot_size'', ''2 hectares''),
         (''maximum_dwelling_units'', ''1 per lot'')]
      else if str_in ''R1'' z then
        [(''maximum_site_coverage'', ''35%''), (''minimum_lot_size'', ''600 square meters''),
         (''maximum_dwelling_units'', ''1 per lot'')]
      else [])"

definition get_height_restrictions :: "string \<Rightarrow> (string \<times> string) list" where
  "get_height_restrictions z =
     (if str_in ''RC'' z \<or> str_in ''Commercial'' z then
        [(''maximum_height'', ''12 meters''), (''maximum_stories'', ''3'')]
      else if str_in ''RUR'' z \<or> str_in ''Rural'' z then
        [(''maximum_height'', ''10 meters''), (''maximum_stories'', ''2.5'')]
      else
        [(''maximum_height'', ''9 meters''), (''maximum_stories'', ''2.5'')])"

subsection \<open>\<open>_get_zoning_information\<close>\<close>

text \<open>The dictionary \<open>zoning_info\<close>; two of the four branches set no
  \<open>discretionary_uses\<close>.\<close>

record zoning_rec =
  zi_zoning :: string
  zi_permitted_uses :: "string list"
  zi_discretionary_uses :: "string list option"
  zi_setbacks :: "(string \<times> string) list"
  zi_density_restrictions :: "(string \<times> string) list"
  zi_height_restrictions :: "(string \<times> string) list"

definition with_restrictions :: "string \<Rightarrow> string list \<Rightarrow> string list option \<Rightarrow> zoning_rec" where
  "with_restrictions z permitted discretionary =
     \<lparr>zi_zoning = z, zi_permitted_uses = permitted, zi_discretionary_uses = discretionary,
      zi_setbacks = get_typical_setbacks z,
      zi_density_restrictions = get_density_restrictions z,
      zi_height_restrictions = get_height_restrictions z\<rparr>"

definition rural_residential :: zoning_rec where
  "rural_residential =
     with_restrictions ''RUR - Rural Residential''
       [''Single family dwelling'', ''Home occupation'', ''Agriculture (limited)'',
        ''Accessory buildings'']
       (Some [''Bed and breakfast'', ''Secondary suite'', ''Small scale tourism''])"

definition single_family :: zoning_rec where
  "single_family =
     with_restrictions ''R1 - Single Family Residential''
       [''Single family dwelling'', ''Home occupation'', ''Accessory buildings''] None"

definition get_zoning_information :: "property_info \<Rightarrow> pyerr + zoning_rec" where
  "get_zoning_information pinfo =
     (let details = property_details pinfo;
          acres = (case acreage details of None \<Rightarrow> PInt 0 | Some a \<Rightarrow> a);
          hints = (case zoning_hints details of None \<Rightarrow> [] | Some hs \<Rightarrow> hs)
      in if ''commercial'' \<in> set hints then
           (case py_gt acres 5 of
              Inl e \<Rightarrow> Inl e
            | Inr True \<Rightarrow>
                Inr (with_restrictions ''RC - Rural Commercial''
                  [''Tourist accommodation'', ''Recreation facilities'', ''Small scale retail'',
                   ''Restaurants'', ''Bed and breakfast'']
                  (Some [''Cottage development'', ''RV parks'', ''Event facilities'',
                         ''Conference centers'']))
            | Inr False \<Rightarrow>
                Inr (with_restrictions ''C2 - Community Commercial''
                  [''Retail stores'', ''Restaurants'', ''Offices'', ''Personal services'']
                  None))
         else if ''rural'' \<in> set hints then Inr rural_residential
         else
           (case py_gt acres 2 of
              Inl e \<Rightarrow> Inl e
            | Inr True \<Rightarrow> Inr rural_residential
            | Inr False \<Rightarrow> Inr single_family))"

subsection \<open>\<open>_get_bylaw_information\<close> and \<open>_get_development_requirements\<close>\<close>

text \<open>
  What the policy engine reads of the municipality dictionary: three keys, each of which
  may be missing. The contact information is taken by its content.
\<close>

record municipality_info =
  mi_name :: "string option"
  mi_contact_info :: "pydict option"
  mi_land_use_bylaw :: "string option"

record bylaw_section =
  bs_section :: string
  bs_title :: string
  bs_description :: string

record bylaw_rec =
  url :: string
  title :: string
  sections :: "bylaw_section list"

definition name_or_empty :: "municipality_info \<Rightarrow> string" where
  "name_or_empty mi = (case mi_name mi of None \<Rightarrow> [] | Some n \<Rightarrow> n)"

definition get_bylaw_information :: "municipality_info \<Rightarrow> bylaw_rec option" where
  "get_bylaw_information mi =
     (case mi_land_use_bylaw mi of
        None \<Rightarrow> None
      | Some bylaw_url \<Rightarrow>
          if bylaw_url = [] then None
          else Some
            \<lparr>url = bylaw_url, title = name_or_empty mi @ '' Land Use Bylaw'',
             sections =
               [\<lparr>bs_section = ''1'', bs_title = ''Definitions and General Provisions'',
                 bs_description = ''Basic definitions and general requirements''\<rparr>,
                \<lparr>bs_section = ''2'', bs_title = ''Zoning Districts'',
                 bs_description = ''Description of all zoning districts and their purposes''\<rparr>,
                \<lparr>bs_section = ''3'', bs_title = ''General Regulations'',
                 bs_description = ''Setbacks, height limits, parking requirements''\<rparr>,
                \<lparr>bs_section = ''4'', bs_title = ''Development Permits'',
                 bs_description = ''Development permit application process and requirements''\<rparr>,
                \<lparr>bs_section = ''5'', bs_title = ''Subdivision'',
                 bs_description = ''Subdivision regulations and approval process''\<rparr>]\<rparr>)"

definition get_development_requirements :: "municipality_info \<Rightarrow> string option \<Rightarrow> string list" where
  "get_development_requirements mi z =
     [''Development permit required'', ''Building permit required'',
      ''Compliance with Alberta Building Code''] @
     (case z of
        Some zs \<Rightarrow>
          if zs \<noteq> [] \<and> str_in ''commercial'' (lower zs) then
            [''Site plan approval required'', ''Parking plan submission'',
             ''Landscaping plan required'', ''Signage approval needed'']
          else []
      | None \<Rightarrow> []) @
     (case z of
        Some zs \<Rightarrow>
          if zs \<noteq> [] \<and> str_in ''rural'' (lower zs) then
            [''Septic system approval (if applicable)'', ''Water well testing (if applicable)'',
             ''Environmental assessment may be required'', ''Agricultural impact assessment'']
          else []
      | None \<Rightarrow> []) @
     (if str_in ''County'' (name_or_empty mi) then
        [''County road access approval'', ''Fire protection plan'', ''Waste management plan'']
      else [])"

subsection \<open>\<open>get_land_use_policies\<close>\<close>

record policy_info =
  municipality :: string
  zoning :: "string option"
  land_use_bylaw :: "bylaw_rec option"
  permitted_uses :: "string list"
  discretionary_uses :: "string list"
  setbacks :: "(string \<times> string) list"
  density_restrictions :: "(string \<times> string) list"
  height_restrictions :: "(string \<times> string) list"
  special_provisions :: "string list"
  development_requirements :: "string list"
  contact_info :: pydict
  bylaw_links :: "string list"
  last_updated :: string
  error :: "string option"

text \<open>\<open>policy_info.update(zoning_info)\<close>: the keys of \<open>zoning_info\<close> overwrite.\<close>

definition update_policy :: "policy_info \<Rightarrow> zoning_rec \<Rightarrow> policy_info" where
  "update_policy p zi =
     p\<lparr>zoning := Some (zi_zoning zi),
       permitted_uses := zi_permitted_uses zi,
       discretionary_uses :=
         (case zi_discretionary_uses zi of None \<Rightarrow> discretionary_uses p | Some d \<Rightarrow> d),
       setbacks := zi_setbacks zi,
       density_restrictions := zi_density_restrictions zi,
       height_restrictions := zi_height_restrictions zi\<rparr>"

text \<open>
  The state of a \<open>PolicyRetrieval\<close> object that the function touches is its
  \<open>policy_cache\<close>, a dictionary from keys to policy records. \<open>hash_str p\<close> is
  \<open>hash(str(p))\<close>, fixed for the life of the process, and \<open>now\<close> is what
  \<open>time.strftime\<close> returns at the call. The function returns the policy record and the
  cache as it leaves it.
\<close>

definition cache_key_of :: "(property_info \<Rightarrow> int) \<Rightarrow> municipality_info \<Rightarrow> property_info \<Rightarrow> string" where
  "cache_key_of hash_str mi pinfo = name_or_empty mi @ ''_'' @ str_int (hash_str pinfo)"

definition fresh_policy :: "string \<Rightarrow> municipality_info \<Rightarrow> policy_info" where
  "fresh_policy now mi =
     \<lparr>municipality = name_or_empty mi, zoning = None, land_use_bylaw = None,
      permitted_uses = [], discretionary_uses = [], setbacks = [],
      density_restrictions = [], height_restrictions = [], special_provisions = [],
      development_requirements = [],
      contact_info = (case mi_contact_info mi of None \<Rightarrow> [] | Some c \<Rightarrow> c),
      bylaw_links = [], last_updated = now, error = None\<rparr>"

definition get_land_use_policies ::
  "(property_info \<Rightarrow> int) \<Rightarrow> string \<Rightarrow> municipality_info \<Rightarrow> property_info
     \<Rightarrow> (string \<times> policy_info) list \<Rightarrow> policy_info \<times> (string \<times> policy_info) list" where
  "get_land_use_policies hash_str now mi pinfo policy_cache =
     (let cache_key = cache_key_of hash_str mi pinfo in
      case map_of policy_cache cache_key of
        Some cached \<Rightarrow> (cached, policy_cache)
      | None \<Rightarrow>
          (let p = fresh_policy now mi in
           case get_zoning_information pinfo of
             Inl e \<Rightarrow>
               (p\<lparr>error := Some (''Error retrieving policy information: '' @ str_err e)\<rparr>,
                policy_cache)
           | Inr zoning_info \<Rightarrow>
               (let p = update_policy p zoning_info;
                    p = (case get_bylaw_information mi of
                           None \<Rightarrow> p
                         | Some bylaw_info \<Rightarrow> p\<lparr>land_use_bylaw := Some bylaw_info\<rparr>);
                    dev_requirements = get_development_requirements mi (zoning p);
                    p = (if dev_requirements \<noteq> [] then
                           p\<lparr>development_requirements := dev_requirements\<rparr>
                         else p)
                in (p, AList.update cache_key p policy_cache))))"

subsection \<open>\<open>get_cottage_development_analysis\<close>\<close>

record analysis =
  feasibility :: string
  cottage_potential :: pydict
  regulatory_considerations :: "string list"
  next_steps :: "string list"

definition next_steps_list :: "string list" where
  "next_steps_list =
     [''Schedule pre-application meeting with planning department'',
      ''Obtain detailed zoning map and bylaw review'',
      ''Conduct environmental site assessment'',
      ''Verify utility capacity and availability'',
      ''Consult with development engineer'',
      ''Prepare preliminary site plan'']"

text \<open>The dictionary \<open>cottage_potential\<close> of the branch with at least 14 acres and a
  coverage of 40%.\<close>

definition potential :: "pyval \<Rightarrow> real \<Rightarrow> pydict" where
  "potential acres x =
     (let developable_area = x * 0.4;
          potential_cottages = py_trunc (developable_area * 4.5)
      in [(''total_acreage'', acres),
          (''developable_acreage'', PFloat developable_area),
          (''estimated_cottage_units'', PInt potential_cottages),
          (''phased_development'', PBool True),
          (''recommended_phase_1'', PInt (min 5 potential_cottages))])"

definition get_cottage_development_analysis :: "policy_info \<Rightarrow> details_rec \<Rightarrow> pyerr + analysis" where
  "get_cottage_development_analysis p details =
     (let acres = (case acreage details of None \<Rightarrow> PInt 0 | Some a \<Rightarrow> a) in
      case zoning p of
        None \<Rightarrow> Inl (TypeError (''argument of type '' @ quoted ''NoneType'' @ '' is not iterable''))
      | Some z \<Rightarrow>
          if str_in ''Rural Commercial'' z \<or> str_in ''RC'' z then
            (case num_of acres of
               None \<Rightarrow> Inl (not_supported ''>='' acres)
             | Some x \<Rightarrow>
                 let max_coverage =
                       (case map_of (density_restrictions p) ''maximum_site_coverage'' of
                          None \<Rightarrow> ''40%'' | Some c \<Rightarrow> c)
                 in Inr
                   \<lparr>feasibility = ''High'',
                    cottage_potential =
                      (if x \<ge> 14 \<and> str_in ''40%'' max_coverage then potential acres x
                       else []),
                    regulatory_considerations =
                      [''Tourist accommodation is typically permitted use'',
                       ''Development permit required for each phase'',
                       ''Site plan approval needed'',
                       ''Septic system capacity assessment required'',
                       ''Water supply adequacy verification needed'',
                       ''Fire access and safety plan required''],
                    next_steps = next_steps_list\<rparr>)
          else if str_in ''Rural'' z then
            Inr \<lparr>feasibility = ''Moderate'', cottage_potential = [],
                 regulatory_considerations =
                   [''May require rezoning to Rural Commercial'',
                    ''Discretionary use application may be possible'',
                    ''Bed and breakfast operations typically allowed'',
                    ''Small scale tourism may be permitted''],
                 next_steps = next_steps_list\<rparr>
          else
            Inr \<lparr>feasibility = ''Low'', cottage_potential = [],
                 regulatory_considerations =
                   [''Rezoning likely required'',
                    ''Commercial use not typically permitted'',
                    ''Significant regulatory hurdles expected''],
                 next_steps = next_steps_list\<rparr>)"

section \<open>Invariants\<close>

text \<open>
  The state of the loop of \<open>_find_by_coordinates\<close> is the closest municipality so far
  and its distance. Either both are unset, or the municipality is an object made since
  the call began (its address is at least \<open>n\<close>, the size of the heap at the call), its
  \<open>distance_km\<close> is the distance of the state and is below 50, and that distance is
  the distance from the query point to the coordinates the object refers to.
\<close>

definition closest_inv ::
  "(real \<Rightarrow> real \<Rightarrow> pyval \<Rightarrow> pyval \<Rightarrow> pyerr + real) \<Rightarrow> real \<Rightarrow> real \<Rightarrow> nat \<Rightarrow> heap
     \<Rightarrow> nat option \<times> real option \<Rightarrow> bool" where
  "closest_inv geodesic lat lon n h s =
     (case s of
        (None, None) \<Rightarrow> True
      | (Some r, Some d) \<Rightarrow>
          n \<le> r \<and> r < length h \<and> d < 50 \<and>
          map_of (h ! r) ''distance_km'' = Some (PFloat d) \<and>
          (\<exists>c mlat mlon.
             map_of (h ! r) ''coordinates'' = Some (PRef c) \<and> c < length h \<and>
             map_of (h ! c) ''lat'' = Some mlat \<and> map_of (h ! c) ''lon'' = Some mlon \<and>
             geodesic lat lon mlat mlon = Inr d)
      | _ \<Rightarrow> False)"

text \<open>
  A computation allocates when the heap it leaves starts with the heap it was given, so
  that no object that existed is changed, and the address it returns, if any, is the
  address of an object that did not exist before.
\<close>

definition allocates :: "nat option py \<Rightarrow> bool" where
  "allocates m =
     (\<forall>h. prefix h (snd (m h)) \<and>
          (\<forall>r. fst (m h) = Inr (Some r) \<longrightarrow> length h \<le> r \<and> r < length (snd (m h))))"

section \<open>Sample inputs\<close>

text \<open>Concrete inputs on which the properties below are evaluated.\<close>

text \<open>A three-acre property with the zoning hint \<open>commercial\<close>.\<close>

definition shop :: property_info where
  "shop =
     \<lparr>raw_input = \<lparr>raw_address = [], raw_legal_description = [],
                     raw_additional_info = ''3 acres commercial''\<rparr>,
      parsed_address = None, parsed_legal = None, coordinates = None,
      municipality_hints = [],
      property_details =
        \<lparr>acreage = Some (PFloat 3), zoning_hints = Some [''commercial''],
         development_intentions = None, infrastructure_mentions = None\<rparr>\<rparr>"

text \<open>A policy record with rural commercial zoning and its density table, and the
  details of a property of 14.55 acres.\<close>

definition rural_commercial_policy :: policy_info where
  "rural_commercial_policy =
     \<lparr>municipality = ''Wetaskiwin County'', zoning = Some ''RC - Rural Commercial'',
      land_use_bylaw = None, permitted_uses = [], discretionary_uses = [],
      setbacks = get_typical_setbacks ''RC - Rural Commercial'',
      density_restrictions = get_density_restrictions ''RC - Rural Commercial'',
      height_restrictions = get_height_restrictions ''RC - Rural Commercial'',
      special_provisions = [], development_requirements = [], contact_info = [],
      bylaw_links = [], last_updated = [], error = None\<rparr>"

definition cottage_details :: details_rec where
  "cottage_details =
     \<lparr>acreage = Some (PFloat 14.55), zoning_hints = Some [''commercial'', ''rural''],
      development_intentions = Some [''develop'', ''cottages''],
      infrastructure_mentions = Some [''septic'', ''water'', ''power'']\<rparr>"

text \<open>A property whose acreage is a string, which the zoning engine cannot compare
  with a number, and the three keys of a county's dictionary.\<close>

definition text_acreage :: property_info where
  "text_acreage =
     \<lparr>raw_input = \<lparr>raw_address = [], raw_legal_description = [],
                     raw_additional_info = []\<rparr>,
      parsed_address = None, parsed_legal = None, coordinates = None,
      municipality_hints = [],
      property_details =
        \<lparr>acreage = Some (PStr ''large''), zoning_hints = Some [''commercial''],
         development_intentions = None, infrastructure_mentions = None\<rparr>\<rparr>"

definition camrose_county :: municipality_info where
  "camrose_county =
     \<lparr>mi_name = Some ''Camrose County'',
      mi_contact_info = Some [(''phone'', PStr ''780-672-4446'')],
      mi_land_use_bylaw = Some ''https://www.camrosecounty.ab.ca/government/bylaws/''\<rparr>"

text \<open>The heap and the lookup object that \<open>MunicipalityLookup()\<close> leaves when it is
  run on the empty heap (\<open>init_lookup_loaded\<close> below).\<close>

definition loaded_heap :: heap where
  "loaded_heap = snd (init_lookup [])"

definition loaded_lookup :: lookup where
  "loaded_lookup =
     \<lparr>municipalities_data = 47,
      supported_regions =
        [''Red Deer'', ''Edmonton'', ''Lacombe'', ''Wetaskiwin'', ''Camrose'', ''Athabasca'',
         ''Lacombe County'', ''Ponoka County'', ''Wetaskiwin County'', ''Camrose County'',
         ''Leduc County'', ''Strathcona County'', ''Sturgeon County'', ''Parkland County'',
         ''Athabasca County'']\<rparr>"

text \<open>A distance function to evaluate with: 111 km for each degree of latitude and of
  longitude.\<close>

definition flat_distance :: "real \<Rightarrow> real \<Rightarrow> pyval \<Rightarrow> pyval \<Rightarrow> pyerr + real" where
  "flat_distance lat lon a b =
     (case (num_of a, num_of b) of
        (Some x, Some y) \<Rightarrow> Inr (111 * (\<bar>lat - x\<bar> + \<bar>lon - y\<bar>))
      | _ \<Rightarrow> Inl (ValueError ''not a coordinate''))"

text \<open>A property record whose hints are Ponoka and Edmonton and whose coordinates lie in
  Red Deer.\<close>

definition hinted_property :: property_info where
  "hinted_property =
     \<lparr>raw_input = \<lparr>raw_address = ''Ponoka road, towards Edmonton'',
                     raw_legal_description = [], raw_additional_info = []\<rparr>,
      parsed_address =
        Some \<lparr>addr_type = ''unknown'', addr_components = [],
              full_address = ''Ponoka road, towards Edmonton''\<rparr>,
      parsed_legal = None,
      coordinates =
        Some \<lparr>latitude = 52.27, longitude = - 113.81,
              display_name = ''Red Deer, Alberta, Canada''\<rparr>,
      municipality_hints = [''Ponoka'', ''Edmonton''],
      property_details = empty_details\<rparr>"

text \<open>The legal description of the quarter section \<open>SW 14-45-25-W4\<close> as the parser
  returns it, the property record of that legal description alone, and a quarter
  section in township 50.\<close>

definition sw_quarter :: legal_rec where
  "sw_quarter =
     \<lparr>legal_type = ''quarter_section'',
      legal_components =
        [(''quarter'', ''SW''), (''section'', ''14''), (''township'', ''45''),
         (''range'', ''25''), (''meridian_direction'', ''W''), (''meridian'', ''4'')],
      full_description = ''SW 14-45-25-W4''\<rparr>"

definition sw_property :: property_info where
  "sw_property =
     \<lparr>raw_input = \<lparr>raw_address = [], raw_legal_description = ''SW 14-45-25-W4'',
                     raw_additional_info = []\<rparr>,
      parsed_address = None, parsed_legal = Some sw_quarter, coordinates = None,
      municipality_hints = [], property_details = empty_details\<rparr>"

definition township_50 :: legal_rec where
  "township_50 =
     \<lparr>legal_type = ''quarter_section'',
      legal_components =
        [(''quarter'', ''NE''), (''section'', ''7''), (''township'', ''50''),
         (''range'', ''25''), (''meridian_direction'', ''W''), (''meridian'', ''4'')],
      full_description = ''NE 7-50-25-W4''\<rparr>"

section \<open>Properties\<close>

subsection \<open>Strings\<close>

text \<open>\<open>str_in\<close> is the substring test: some text before, the substring, some text after.\<close>

lemma str_in_sublist: "str_in sub s \<longleftrightarrow> sublist sub s"
  by (induction s) (simp_all add: sublist_Cons_right)

lemma str_in_iff: "str_in sub s \<longleftrightarrow> (\<exists>before after. s = before @ sub @ after)"
  by (simp add: str_in_sublist sublist_def)

subsection \<open>Evaluating characters\<close>

text \<open>
  The character classes and case mappings on a character given by its bits, so that
  the simplifier evaluates them on literals without arithmetic.
\<close>

lemma isupper_Char:
  "isupper (Char b0 b1 b2 b3 b4 b5 b6 b7) =
     (\<not> b7 \<and> b6 \<and> \<not> b5 \<and> (b0 \<or> b1 \<or> b2 \<or> b3 \<or> b4) \<and>
      \<not> (b4 \<and> b3 \<and> (b2 \<or> (b1 \<and> b0))))"
  by (cases b0; cases b1; cases b2; cases b3; cases b4; cases b5; cases b6; cases b7;
      simp add: isupper_def py_ord_def)

lemma islower_Char:
  "islower (Char b0 b1 b2 b3 b4 b5 b6 b7) =
     (\<not> b7 \<and> b6 \<and> b5 \<and> (b0 \<or> b1 \<or> b2 \<or> b3 \<or> b4) \<and>
      \<not> (b4 \<and> b3 \<and> (b2 \<or> (b1 \<and> b0))))"
  by (cases b0; cases b1; cases b2; cases b3; cases b4; cases b5; cases b6; cases b7;
      simp add: islower_def py_ord_def)

lemma isdigit_Char:
  "isdigit (Char b0 b1 b2 b3 b4 b5 b6 b7) =
     (\<not> b7 \<and> \<not> b6 \<and> b5 \<and> b4 \<and> \<not> (b3 \<and> (b2 \<or> b1)))"
  by (cases b0; cases b1; cases b2; cases b3; cases b4; cases b5; cases b6; cases b7;
      simp add: isdigit_def py_ord_def)

lemma isspace_Char:
  "isspace (Char b0 b1 b2 b3 b4 b5 b6 b7) =
     (\<not> b7 \<and> \<not> b6 \<and>
      ((\<not> b5 \<and> \<not> b4 \<and> b3 \<and> \<not> (b2 \<and> b1) \<and> (b0 \<or> b1 \<or> b2)) \<or>
       (\<not> b5 \<and> b4 \<and> b3 \<and> b2) \<or>
       (b5 \<and> \<not> b4 \<and> \<not> b3 \<and> \<not> b2 \<and> \<not> b1 \<and> \<not> b0)))"
  by (cases b0; cases b1; cases b2; cases b3; cases b4; cases b5; cases b6; cases b7;
      simp add: isspace_def py_ord_def)

lemma lower_char_Char:
  "lower_char (Char b0 b1 b2 b3 b4 b5 b6 b7) =
     Char b0 b1 b2 b3 b4 (b5 \<or> isupper (Char b0 b1 b2 b3 b4 b5 b6 b7)) b6 b7"
  by (cases b0; cases b1; cases b2; cases b3; cases b4; cases b5; cases b6; cases b7;
      simp add: lower_char_def isupper_def py_ord_def char_of_eq_iff)

lemma upper_char_Char:
  "upper_char (Char b0 b1 b2 b3 b4 b5 b6 b7) =
     Char b0 b1 b2 b3 b4 (b5 \<and> \<not> islower (Char b0 b1 b2 b3 b4 b5 b6 b7)) b6 b7"
  by (cases b0; cases b1; cases b2; cases b3; cases b4; cases b5; cases b6; cases b7;
      simp add: upper_char_def islower_def py_ord_def char_of_eq_iff)

lemmas char_eval = isupper_Char islower_Char isdigit_Char isspace_Char lower_char_Char
  upper_char_Char isalnum_def py_ord_def

lemmas rx_eval = ws0_def ws1_def digits_def opt_comma_def words1_def we_def letter_def
  cls_mem_def lower_def upper_def group_def char_eval

subsection \<open>The lookup tables of the zoning engine\<close>

lemma get_typical_setbacks_nonempty: "get_typical_setbacks z \<noteq> []"
  by (simp add: get_typical_setbacks_def)

lemma get_height_restrictions_nonempty: "get_height_restrictions z \<noteq> []"
  by (simp add: get_height_restrictions_def)

text \<open>The record \<open>shop\<close> is what the parser returns for the note \<open>3 acres commercial\<close>.\<close>

lemma hints_of_shop: "extract_municipality_hints ''  3 acres commercial'' = []"
  by (simp add: extract_municipality_hints_def municipalities_def counties_def rx_eval)

lemma details_of_shop: "extract_property_details ''3 acres commercial'' = property_details shop"
  by (simp add: extract_property_details_def shop_def acreage_pattern_def scan_keywords_def
      zoning_keywords_def development_keywords_def infrastructure_keywords_def
      float_of_decimal_def nat_of_digits_def rx_eval)

lemma parse_shop: "parse_property_info geolocator [] [] ''3 acres commercial'' = Inr (Some shop)"
  using hints_of_shop details_of_shop
  by (simp add: parse_property_info_def collect_property_info_def shop_def
      is_valid_property_info_def has_raw_input_def)

text \<open>
  C6. Each of the three lookups is an ordered chain of substring tests, and the claim
  is that each ends in a default, so that every zoning code the engine produces gets a
  non-empty table from each. The setback and height lookups have a default. The density
  lookup has none: for the note \<open>3 acres commercial\<close> the parser returns the record
  \<open>shop\<close>, for which the engine produces the zoning code
  \<open>C2 - Community Commercial\<close>; its setback and height tables are not empty and its
  density table is empty.
\<close>

theorem density_lookup_has_no_default:
  "parse_property_info geolocator [] [] ''3 acres commercial'' = Inr (Some shop) \<and>
   (\<exists>z. get_zoning_information shop = Inr z \<and>
       zi_zoning z = ''C2 - Community Commercial'' \<and>
       zi_setbacks z \<noteq> [] \<and> zi_height_restrictions z \<noteq> [] \<and>
       zi_density_restrictions z = [])"
  using parse_shop
  by (simp add: get_zoning_information_def shop_def py_gt_def num_of_def
      with_restrictions_def get_density_restrictions_def get_typical_setbacks_def
      get_height_restrictions_def)

subsection \<open>The cottage development analysis\<close>

text \<open>
  C8. With an acreage of 14.55, a zoning that contains \<open>Rural Commercial\<close> and a density
  table whose \<open>maximum_site_coverage\<close> is \<open>40%\<close>, the analysis has feasibility
  \<open>High\<close>, a developable area of 14.55 * 0.4 = 5.82, an estimate of
  floor(5.82 * 4.5) = 26 cottage units and a first phase of min(5, 26) = 5 units.
\<close>

theorem cottage_analysis_example:
  assumes "zoning p = Some z" and "str_in ''Rural Commercial'' z"
    and "map_of (density_restrictions p) ''maximum_site_coverage'' = Some ''40%''"
    and "acreage d = Some (PFloat 14.55)"
  shows "\<exists>a. get_cottage_development_analysis p d = Inr a \<and> feasibility a = ''High'' \<and>
     cottage_potential a =
       [(''total_acreage'', PFloat 14.55), (''developable_acreage'', PFloat 5.82),
        (''estimated_cottage_units'', PInt 26), (''phased_development'', PBool True),
        (''recommended_phase_1'', PInt 5)]"
  using assms
  by (simp add: get_cottage_development_analysis_def num_of_def potential_def
      py_trunc_def Let_def)

theorem cottage_analysis_example_witness:
  "zoning rural_commercial_policy = Some ''RC - Rural Commercial'' \<and>
   str_in ''Rural Commercial'' ''RC - Rural Commercial'' \<and>
   map_of (density_restrictions rural_commercial_policy) ''maximum_site_coverage'' = Some ''40%'' \<and>
   acreage cottage_details = Some (PFloat 14.55) \<and>
   (\<exists>a. get_cottage_development_analysis rural_commercial_policy cottage_details = Inr a \<and>
      feasibility a = ''High'' \<and>
      cottage_potential a =
        [(''total_acreage'', PFloat 14.55), (''developable_acreage'', PFloat 5.82),
         (''estimated_cottage_units'', PInt 26), (''phased_development'', PBool True),
         (''recommended_phase_1'', PInt 5)])"
proof -
  have z: "zoning rural_commercial_policy = Some ''RC - Rural Commercial''"
    by (simp add: rural_commercial_policy_def)
  have s: "str_in ''Rural Commercial'' ''RC - Rural Commercial''"
    by simp
  have c: "map_of (density_restrictions rural_commercial_policy) ''maximum_site_coverage''
      = Some ''40%''"
    by (simp add: rural_commercial_policy_def get_density_restrictions_def)
  have a: "acreage cottage_details = Some (PFloat 14.55)"
    by (simp add: cottage_details_def)
  from cottage_analysis_example [OF z s c a] z s c a show ?thesis
    by blast
qed

subsection \<open>The policy cache\<close>

lemma map_of_update_same: "map_of (AList.update k v al) k = Some v"
  by (simp add: update_conv')

text \<open>
  C10. \<open>get_land_use_policies\<close> and its cache. A key that is in the cache gives the
  stored record and leaves the cache as it is, whatever a new computation would give.
  For a key that is not in the cache the record is computed: when the computation
  raises, the record returned carries the \<open>error\<close> field and the cache is unchanged, so
  that a later call computes again (it returns the same record with the time of that
  call); when it does not raise, the record has no \<open>error\<close> field and is stored under the
  key, and a later call returns the stored record, time included.
\<close>

theorem policy_cache_behaviour:
  "(case map_of policy_cache (cache_key_of hash_str mi pinfo) of
      Some cached \<Rightarrow>
        get_land_use_policies hash_str now mi pinfo policy_cache = (cached, policy_cache)
    | None \<Rightarrow>
        (case get_zoning_information pinfo of
           Inl e \<Rightarrow>
             (\<exists>p. get_land_use_policies hash_str now mi pinfo policy_cache = (p, policy_cache) \<and>
                  error p = Some (''Error retrieving policy information: '' @ str_err e) \<and>
                  (\<forall>later.
                     get_land_use_policies hash_str later mi pinfo policy_cache =
                       (p\<lparr>last_updated := later\<rparr>, policy_cache)))
         | Inr z \<Rightarrow>
             (\<exists>p. get_land_use_policies hash_str now mi pinfo policy_cache =
                    (p, AList.update (cache_key_of hash_str mi pinfo) p policy_cache) \<and>
                  error p = None \<and> last_updated p = now \<and>
                  (\<forall>later.
                     get_land_use_policies hash_str later mi pinfo
                        (AList.update (cache_key_of hash_str mi pinfo) p policy_cache) =
                       (p, AList.update (cache_key_of hash_str mi pinfo) p policy_cache)))))"
  by (simp add: get_land_use_policies_def Let_def fresh_policy_def update_policy_def
      map_of_update_same split: option.split sum.split)


theorem policy_cache_behaviour_witness:
  "(\<exists>p. get_land_use_policies (\<lambda>_. 7) ''2025-01-01 00:00:00'' camrose_county text_acreage [] = (p, []) \<and>
      error p = Some (''Error retrieving policy information: '' @
                      str_err (not_supported ''>'' (PStr ''large'')))) \<and>
   (\<exists>p. get_land_use_policies (\<lambda>_. 7) ''2025-01-01 00:00:00'' camrose_county shop [] =
          (p, [(cache_key_of (\<lambda>_. 7) camrose_county shop, p)]) \<and>
        error p = None \<and>
        get_land_use_policies (\<lambda>_. 7) ''2025-06-30 12:00:00'' camrose_county shop
          [(cache_key_of (\<lambda>_. 7) camrose_county shop, p)] =
          (p, [(cache_key_of (\<lambda>_. 7) camrose_county shop, p)]))"
proof -
  have bad: "get_zoning_information text_acreage = Inl (not_supported ''>'' (PStr ''large''))"
    by (simp add: get_zoning_information_def text_acreage_def py_gt_def num_of_def)
  have good: "\<exists>z. get_zoning_information shop = Inr z"
    by (simp add: get_zoning_information_def shop_def py_gt_def num_of_def)
  from policy_cache_behaviour [where policy_cache = "[]" and hash_str = "\<lambda>_. 7"
      and mi = camrose_county and pinfo = text_acreage and now = "''2025-01-01 00:00:00''"] bad
  have first: "\<exists>p. get_land_use_policies (\<lambda>_. 7) ''2025-01-01 00:00:00'' camrose_county text_acreage [] = (p, []) \<and>
      error p = Some (''Error retrieving policy information: '' @
                      str_err (not_supported ''>'' (PStr ''large'')))"
    by auto
  from good obtain z where z: "get_zoning_information shop = Inr z" by blast
  from policy_cache_behaviour [where policy_cache = "[]" and hash_str = "\<lambda>_. 7"
      and mi = camrose_county and pinfo = shop and now = "''2025-01-01 00:00:00''"] z
  have second: "\<exists>p. get_land_use_policies (\<lambda>_. 7) ''2025-01-01 00:00:00'' camrose_county shop [] =
          (p, [(cache_key_of (\<lambda>_. 7) camrose_county shop, p)]) \<and>
        error p = None \<and>
        get_land_use_policies (\<lambda>_. 7) ''2025-06-30 12:00:00'' camrose_county shop
          [(cache_key_of (\<lambda>_. 7) camrose_county shop, p)] =
          (p, [(cache_key_of (\<lambda>_. 7) camrose_county shop, p)])"
    by auto
  from first second show ?thesis by blast
qed

subsection \<open>The parser\<close>

lemma range_road_street: "rsearch street_address_pattern ''12 Range Road 254 T4N 3T4'' = Some [(1, ''12''), (2, ''Range Road'')]"
  by (simp add: street_address_pattern_def street_suffixes_def rx_eval)
lemma range_road_rural: "rsearch rural_address_pattern ''12 Range Road 254 T4N 3T4'' = Some [(1, ''Range Road''), (2, ''254'')]"
  by (simp add: rural_address_pattern_def rx_eval)
lemma range_road_postal: "rsearch postal_code_pattern ''12 Range Road 254 T4N 3T4'' = Some [(1, ''T4N 3T4'')]"
  by (simp add: postal_code_pattern_def rx_eval)

text \<open>
  C5, as stated: when both the street pattern and the rural pattern match, the street
  match sets the type. It does not: the rural test runs second and is not an \<open>elif\<close>,
  so it overwrites the type and the components that the street match has set. The
  address \<open>12 Range Road 254 T4N 3T4\<close> matches both patterns and gets the type
  \<open>rural\<close>.
\<close>

theorem parse_address_both_match_counterexample:
  "rsearch street_address_pattern ''12 Range Road 254 T4N 3T4'' \<noteq> None \<and>
   rsearch rural_address_pattern ''12 Range Road 254 T4N 3T4'' \<noteq> None \<and>
   addr_type (parse_address ''12 Range Road 254 T4N 3T4'') = ''rural'' \<and>
   addr_type (parse_address ''12 Range Road 254 T4N 3T4'') \<noteq> ''street''"
  by (simp add: parse_address_def range_road_street range_road_rural range_road_postal
      del: rsearch.simps)

text \<open>
  C5, amended. The type is \<open>rural\<close> when the rural pattern matches, whether or not the
  street pattern matches too; it is \<open>street\<close> when only the street pattern matches, and
  \<open>unknown\<close> when neither does. A postal code that matches is stored in the components
  under \<open>postal_code\<close>, in upper case and without spaces, in every one of these cases.
\<close>

theorem parse_address_type:
  "addr_type (parse_address a) =
     (if rsearch rural_address_pattern a \<noteq> None then ''rural''
      else if rsearch street_address_pattern a \<noteq> None then ''street''
      else ''unknown'') \<and>
   (\<forall>m. rsearch postal_code_pattern a = Some m \<longrightarrow>
      map_of (addr_components (parse_address a)) ''postal_code'' =
        Some (remove_spaces (upper (group m 1))))"
  by (auto simp add: parse_address_def Let_def update_conv' split: option.split)

theorem parse_address_type_witness:
  "addr_type (parse_address ''12 Range Road 254 T4N 3T4'') = ''rural'' \<and>
   map_of (addr_components (parse_address ''12 Range Road 254 T4N 3T4'')) ''postal_code'' =
     Some ''T4N3T4''"
  using parse_address_type [of "''12 Range Road 254 T4N 3T4''"]
  by (simp add: range_road_rural range_road_postal remove_spaces_def rx_eval
      del: rsearch.simps)

lemma hints_of_blank: "extract_municipality_hints ''  '' = []"
  by (simp add: extract_municipality_hints_def municipalities_def counties_def rx_eval)

lemma collect_empty:
  "collect_property_info geolocator [] [] [] =
     Inr \<lparr>raw_input = \<lparr>raw_address = [], raw_legal_description = [], raw_additional_info = []\<rparr>,
          parsed_address = None, parsed_legal = None, coordinates = None,
          municipality_hints = [], property_details = empty_details\<rparr>"
  using hints_of_blank by (simp add: collect_property_info_def)

lemma parse_property_info_None_iff:
  "parse_property_info geolocator a ld info = Inr None \<longleftrightarrow> a = [] \<and> ld = [] \<and> info = []"
proof
  assume none: "parse_property_info geolocator a ld info = Inr None"
  then obtain p where p: "collect_property_info geolocator a ld info = Inr p"
    and invalid: "\<not> is_valid_property_info p"
    by (auto simp add: parse_property_info_def split: sum.splits if_splits)
  from p have "raw_input p = \<lparr>raw_address = a, raw_legal_description = ld, raw_additional_info = info\<rparr>"
    by (auto simp add: collect_property_info_def split: sum.splits)
  with invalid show "a = [] \<and> ld = [] \<and> info = []"
    by (simp add: is_valid_property_info_def has_raw_input_def)
next
  assume "a = [] \<and> ld = [] \<and> info = []"
  then show "parse_property_info geolocator a ld info = Inr None"
    by (simp add: parse_property_info_def collect_empty is_valid_property_info_def
        has_address_def has_legal_def has_coordinates_def has_municipality_hints_def
        has_property_details_def has_raw_input_def len_details_def empty_details_def)
qed

text \<open>
  C3. When the dictionary that \<open>parse_property_info\<close> has collected carries no signal
  (no typed address, no typed legal description, no coordinates, no municipality hint,
  no property detail, no raw text), the function returns \<open>None\<close>. By
  \<open>parse_property_info_None_iff\<close> this is the case of three empty input strings, and no
  other.
\<close>

theorem parse_property_info_no_signal:
  assumes "collect_property_info geolocator a ld info = Inr p"
    and "\<not> has_address p" and "\<not> has_legal p" and "\<not> has_coordinates p"
    and "\<not> has_municipality_hints p" and "\<not> has_property_details p"
    and "\<not> has_raw_input p"
  shows "parse_property_info geolocator a ld info = Inr None"
  using assms by (simp add: parse_property_info_def is_valid_property_info_def)

theorem parse_property_info_no_signal_witness:
  "\<exists>p. collect_property_info (\<lambda>query. Inr None) [] [] [] = Inr p \<and>
       \<not> has_address p \<and> \<not> has_legal p \<and> \<not> has_coordinates p \<and>
       \<not> has_municipality_hints p \<and> \<not> has_property_details p \<and> \<not> has_raw_input p \<and>
       parse_property_info (\<lambda>query. Inr None) [] [] [] = Inr None"
proof -
  let ?p = "\<lparr>raw_input = \<lparr>raw_address = [], raw_legal_description = [], raw_additional_info = []\<rparr>,
          parsed_address = None, parsed_legal = None, coordinates = None,
          municipality_hints = [], property_details = empty_details\<rparr>"
  have c: "collect_property_info (\<lambda>query. Inr None) [] [] [] = Inr ?p"
    by (rule collect_empty)
  have h: "\<not> has_address ?p" "\<not> has_legal ?p" "\<not> has_coordinates ?p"
    "\<not> has_municipality_hints ?p" "\<not> has_property_details ?p" "\<not> has_raw_input ?p"
    by (simp_all add: has_address_def has_legal_def has_coordinates_def
        has_municipality_hints_def has_property_details_def has_raw_input_def
        len_details_def empty_details_def)
  from parse_property_info_no_signal [OF c h] c h show ?thesis
    by blast
qed

subsection \<open>The heap\<close>

lemmas py_defs = ret_def raise_def pbind_def new_dict_def the_dict_def dict_items_def
  dict_keys_def dict_get_def dict_getitem_def dict_copy_def dict_setitem_def

lemma prefix_grow: "prefix h0 h \<Longrightarrow> prefix h0 (h @ [d])"
  by (simp add: prefix_def) (metis append.assoc)

lemma prefix_update_fresh: "prefix h0 h \<Longrightarrow> length h0 \<le> a \<Longrightarrow> prefix h0 (h[a := d])"
  by (auto simp add: prefix_def list_update_append)

lemma prefix_nth: "prefix h0 h \<Longrightarrow> a < length h0 \<Longrightarrow> h ! a = h0 ! a"
  by (auto simp add: prefix_def nth_append)

lemma prefix_length: "prefix h0 h \<Longrightarrow> length h0 \<le> length h"
  by (auto simp add: prefix_def)

text \<open>The loop of \<open>_find_by_name\<close> over one category.\<close>

lemma copy_and_tag:
  "pbind (dict_copy v) (\<lambda>result.
   pbind (dict_setitem result ''name'' x) (\<lambda>_.
   pbind (dict_setitem result ''category'' y) (\<lambda>_. ret (Some result)))) h =
   (case v of
      PRef a \<Rightarrow>
        if a < length h then
          (Inr (Some (length h)),
           h @ [AList.update ''category'' y (AList.update ''name'' x (h ! a))])
        else (Inl (OtherError ''no object at this address''), h)
    | PStrs xs \<Rightarrow> (Inl (TypeError ''list indices must be integers or slices, not str''), h)
    | _ \<Rightarrow> (Inl (AttributeError ''copy''), h))"
  by (simp add: py_defs split: pyval.split)

lemma find_in_Cons:
  "find_in c nl ((n, v) # es) h =
     (if lower n = nl \<or> str_in (lower n) nl then
        (case v of
           PRef a \<Rightarrow>
             if a < length h then
               (Inr (Some (length h)),
                h @ [AList.update ''category'' (PStr c) (AList.update ''name'' (PStr n) (h ! a))])
             else (Inl (OtherError ''no object at this address''), h)
         | PStrs xs \<Rightarrow> (Inl (TypeError ''list indices must be integers or slices, not str''), h)
         | _ \<Rightarrow> (Inl (AttributeError ''copy''), h))
      else find_in c nl es h)"
  by (simp add: copy_and_tag)

lemma find_in_Nil: "find_in c nl [] h = (Inr None, h)"
  by (simp add: ret_def)

text \<open>The three outcomes of the loop: an exception or no match, with the heap as it
  was, or the address of a new object, the tagged copy of a record.\<close>

lemma find_in_result:
  "(\<exists>e. find_in c nl es h = (Inl e, h)) \<or>
   find_in c nl es h = (Inr None, h) \<or>
   (\<exists>n a. (n, PRef a) \<in> set es \<and> a < length h \<and>
      (lower n = nl \<or> str_in (lower n) nl) \<and>
      find_in c nl es h =
        (Inr (Some (length h)),
         h @ [AList.update ''category'' (PStr c) (AList.update ''name'' (PStr n) (h ! a))]))"
proof (induction es)
  case Nil
  show ?case by (simp add: find_in_Nil del: find_in.simps)
next
  case (Cons e es)
  obtain n v where e: "e = (n, v)" by (cases e)
  show ?case
  proof (cases "lower n = nl \<or> str_in (lower n) nl")
    case True
    show ?thesis
    proof (cases v)
      case (PRef a)
      show ?thesis
      proof (cases "a < length h")
        case True
        with \<open>lower n = nl \<or> str_in (lower n) nl\<close> PRef e
        have "(n, PRef a) \<in> set (e # es) \<and> a < length h \<and>
          (lower n = nl \<or> str_in (lower n) nl) \<and>
          find_in c nl (e # es) h =
            (Inr (Some (length h)),
             h @ [AList.update ''category'' (PStr c) (AList.update ''name'' (PStr n) (h ! a))])"
          by (simp add: find_in_Cons del: find_in.simps)
        then show ?thesis by blast
      next
        case False
        with \<open>lower n = nl \<or> str_in (lower n) nl\<close> PRef e show ?thesis
          by (simp add: find_in_Cons del: find_in.simps)
      qed
    qed (use True e in \<open>simp_all add: find_in_Cons del: find_in.simps\<close>)
  next
    case False
    with e have "find_in c nl (e # es) h = find_in c nl es h"
      by (simp add: find_in_Cons del: find_in.simps)
    with Cons.IH show ?thesis by auto
  qed
qed

text \<open>Reading does not change the heap.\<close>

lemma dict_getitem_heap: "snd (dict_getitem v k h) = h"
  by (simp add: dict_getitem_def split: pyval.split option.split)

lemma dict_items_heap: "snd (dict_items v h) = h"
  by (simp add: dict_items_def the_dict_def pbind_def ret_def split: pyval.split)

lemma dict_get_heap: "snd (dict_get v k h) = h"
  by (simp add: dict_get_def the_dict_def pbind_def ret_def split: pyval.split)

lemma dict_keys_heap: "snd (dict_keys v h) = h"
  by (simp add: dict_keys_def the_dict_def pbind_def ret_def split: pyval.split)

lemma pbind_read:
  assumes "snd (m h) = h"
  shows "pbind m f h = (case fst (m h) of Inl e \<Rightarrow> (Inl e, h) | Inr x \<Rightarrow> f x h)"
  using assms by (cases "m h") (auto simp add: pbind_def split: sum.split)

lemma pbind_getitem:
  "pbind (dict_getitem v k) f h =
     (case fst (dict_getitem v k h) of Inl e \<Rightarrow> (Inl e, h) | Inr x \<Rightarrow> f x h)"
  by (rule pbind_read) (rule dict_getitem_heap)

lemma pbind_items:
  "pbind (dict_items v) f h =
     (case fst (dict_items v h) of Inl e \<Rightarrow> (Inl e, h) | Inr x \<Rightarrow> f x h)"
  by (rule pbind_read) (rule dict_items_heap)

lemma pbind_get:
  "pbind (dict_get v k) f h =
     (case fst (dict_get v k h) of Inl e \<Rightarrow> (Inl e, h) | Inr x \<Rightarrow> f x h)"
  by (rule pbind_read) (rule dict_get_heap)

lemma pbind_keys:
  "pbind (dict_keys v) f h =
     (case fst (dict_keys v h) of Inl e \<Rightarrow> (Inl e, h) | Inr x \<Rightarrow> f x h)"
  by (rule pbind_read) (rule dict_keys_heap)

text \<open>The items of one category of the table, a read of the heap.\<close>

lemma category_read:
  "pbind (dict_getitem (PRef md) k) (\<lambda>d. pbind (dict_items d) f) h =
     (case fst (dict_getitem (PRef md) k h) of
        Inl e \<Rightarrow> (Inl e, h)
      | Inr d \<Rightarrow> (case fst (dict_items d h) of Inl e \<Rightarrow> (Inl e, h) | Inr items \<Rightarrow> f items h))"
  by (simp add: pbind_getitem pbind_items split: sum.split)

lemma pbind_eq:
  "m h = (r, h') \<Longrightarrow> pbind m f h = (case r of Inl e \<Rightarrow> (Inl e, h') | Inr x \<Rightarrow> f x h')"
  by (simp add: pbind_def split: sum.split)

lemma pbind_find_in:
  "find_in c nl es h = (r, h') \<Longrightarrow>
     pbind (find_in c nl es) f h = (case r of Inl e \<Rightarrow> (Inl e, h') | Inr x \<Rightarrow> f x h')"
  by (rule pbind_eq)

lemma find_by_name_read:
  "find_by_name self name h =
     (case fst (dict_getitem (PRef (municipalities_data self)) ''cities'' h) of
        Inl e \<Rightarrow> (Inl e, h)
      | Inr d \<Rightarrow>
          (case fst (dict_items d h) of
             Inl e \<Rightarrow> (Inl e, h)
           | Inr items \<Rightarrow>
               pbind (find_in ''city'' (lower name) items)
                 (\<lambda>r. case r of
                    Some result \<Rightarrow> ret (Some result)
                  | None \<Rightarrow>
                      pbind (dict_getitem (PRef (municipalities_data self)) ''counties'')
                        (\<lambda>d. pbind (dict_items d) (find_in ''county'' (lower name)))) h))"
  by (simp add: find_by_name_def Let_def category_read)

lemma find_by_name_result:
  "(\<exists>e. find_by_name self name h = (Inl e, h)) \<or>
   find_by_name self name h = (Inr None, h) \<or>
   (\<exists>c n a. a < length h \<and>
      find_by_name self name h =
        (Inr (Some (length h)),
         h @ [AList.update ''category'' (PStr c) (AList.update ''name'' (PStr n) (h ! a))]))"
proof -
  let ?md = "municipalities_data self"
  have counties_part:
    "(\<exists>e. pbind (dict_getitem (PRef ?md) ''counties'') (\<lambda>d. pbind (dict_items d)
        (find_in ''county'' (lower name))) h = (Inl e, h)) \<or>
     pbind (dict_getitem (PRef ?md) ''counties'') (\<lambda>d. pbind (dict_items d)
        (find_in ''county'' (lower name))) h = (Inr None, h) \<or>
     (\<exists>c n a. a < length h \<and>
        pbind (dict_getitem (PRef ?md) ''counties'') (\<lambda>d. pbind (dict_items d)
          (find_in ''county'' (lower name))) h =
        (Inr (Some (length h)),
         h @ [AList.update ''category'' (PStr c) (AList.update ''name'' (PStr n) (h ! a))]))"
    (is "?A \<or> ?B \<or> ?C")
  proof (cases "fst (dict_getitem (PRef ?md) ''counties'' h)")
    case (Inl e)
    then show ?thesis by (simp add: category_read)
  next
    case (Inr d)
    show ?thesis
    proof (cases "fst (dict_items d h)")
      case (Inl e)
      with Inr show ?thesis by (simp add: category_read)
    next
      case items: (Inr items)
      from find_in_result [of "''county''" "lower name" items h] Inr items
      show ?thesis by (simp add: category_read del: find_in.simps) blast
    qed
  qed
  show ?thesis
  proof (cases "fst (dict_getitem (PRef ?md) ''cities'' h)")
    case (Inl e)
    then show ?thesis by (simp add: find_by_name_read)
  next
    case (Inr d)
    show ?thesis
    proof (cases "fst (dict_items d h)")
      case (Inl e)
      with Inr show ?thesis by (simp add: find_by_name_read)
    next
      case items: (Inr items)
      from find_in_result [of "''city''" "lower name" items h]
      consider (err) e where "find_in ''city'' (lower name) items h = (Inl e, h)"
        | (none) "find_in ''city'' (lower name) items h = (Inr None, h)"
        | (some) n a where "a < length h"
            "find_in ''city'' (lower name) items h =
              (Inr (Some (length h)),
               h @ [AList.update ''category'' (PStr ''city'')
                      (AList.update ''name'' (PStr n) (h ! a))])"
        by blast
      then show ?thesis
      proof cases
        case err
        with Inr items show ?thesis
          by (simp add: find_by_name_read pbind_find_in [OF err] del: find_in.simps)
      next
        case none
        with Inr items have "find_by_name self name h =
          pbind (dict_getitem (PRef ?md) ''counties'') (\<lambda>d. pbind (dict_items d)
            (find_in ''county'' (lower name))) h"
          by (simp add: find_by_name_read pbind_find_in [OF none] del: find_in.simps)
        with counties_part show ?thesis by simp
      next
        case some
        with Inr items have "find_by_name self name h =
          (Inr (Some (length h)),
               h @ [AList.update ''category'' (PStr ''city'')
                      (AList.update ''name'' (PStr n) (h ! a))])"
          by (simp add: find_by_name_read pbind_find_in [OF some(2)] ret_def del: find_in.simps)
        with some(1) show ?thesis by blast
      qed
    qed
  qed
qed

lemma find_by_name_None: "find_by_name self name h = (Inr None, h') \<Longrightarrow> h' = h"
  using find_by_name_result [of self name h] by auto

lemma find_by_name_Some:
  "find_by_name self name h = (Inr (Some r), h') \<Longrightarrow>
     r = length h \<and>
     (\<exists>c n a. a < length h \<and>
        h' = h @ [AList.update ''category'' (PStr c) (AList.update ''name'' (PStr n) (h ! a))])"
  using find_by_name_result [of self name h] by auto

lemma find_by_name_frame: "prefix h (snd (find_by_name self name h))"
  using find_by_name_result [of self name h] by auto

lemma find_by_name_truthy:
  "find_by_name self name h = (Inr (Some r), h') \<Longrightarrow> truthy_result h' (Some r)"
  by (auto simp add: truthy_result_def truthy_def nth_append dest!: find_by_name_Some)

subsection \<open>The table as loaded\<close>

lemmas table_defs = init_lookup_def get_supported_regions_def
  load_municipalities_data_def cities_table_def counties_table_def municipality_entry_def py_defs

lemma init_lookup_loaded: "init_lookup [] = (Inr loaded_lookup, loaded_heap)"
proof -
  have "fst (init_lookup []) = Inr loaded_lookup"
    by (simp add: loaded_lookup_def table_defs)
  then show ?thesis
    by (simp add: loaded_heap_def prod_eq_iff)
qed

lemma loaded_facts_let:
  "let h = loaded_heap in
     length h = 48 \<and>
     h ! 47 = [(''cities'', PRef 18), (''counties'', PRef 46)] \<and>
     h ! 18 =
       [(''Red Deer'', PRef 2), (''Edmonton'', PRef 5), (''Lacombe'', PRef 8), (''Wetaskiwin'', PRef 11), (''Camrose'', PRef 14), (''Athabasca'', PRef 17)] \<and>
     h ! 46 =
       [(''Lacombe County'', PRef 21), (''Ponoka County'', PRef 24), (''Wetaskiwin County'', PRef 27), (''Camrose County'', PRef 30), (''Leduc County'', PRef 33), (''Strathcona County'', PRef 36), (''Sturgeon County'', PRef 39), (''Parkland County'', PRef 42), (''Athabasca County'', PRef 45)] \<and>
     map_of (h ! 2) ''coordinates'' = Some (PRef 0) \<and>
     h ! 0 = [(''lat'', PFloat 52.2681), (''lon'', PFloat (- 113.8112))] \<and>
     map_of (h ! 5) ''coordinates'' = Some (PRef 3) \<and>
     h ! 3 = [(''lat'', PFloat 53.5461), (''lon'', PFloat (- 113.4938))] \<and>
     map_of (h ! 8) ''coordinates'' = Some (PRef 6) \<and>
     h ! 6 = [(''lat'', PFloat 52.4675), (''lon'', PFloat (- 113.7364))] \<and>
     map_of (h ! 11) ''coordinates'' = Some (PRef 9) \<and>
     h ! 9 = [(''lat'', PFloat 52.9692), (''lon'', PFloat (- 113.3747))] \<and>
     map_of (h ! 14) ''coordinates'' = Some (PRef 12) \<and>
     h ! 12 = [(''lat'', PFloat 53.0167), (''lon'', PFloat (- 112.8333))] \<and>
     map_of (h ! 17) ''coordinates'' = Some (PRef 15) \<and>
     h ! 15 = [(''lat'', PFloat 54.7186), (''lon'', PFloat (- 113.2856))] \<and>
     map_of (h ! 21) ''coordinates'' = Some (PRef 19) \<and>
     h ! 19 = [(''lat'', PFloat 52.4), (''lon'', PFloat (- 113.8))] \<and>
     map_of (h ! 24) ''coordinates'' = Some (PRef 22) \<and>
     h ! 22 = [(''lat'', PFloat 52.6833), (''lon'', PFloat (- 113.5833))] \<and>
     map_of (h ! 27) ''coordinates'' = Some (PRef 25) \<and>
     h ! 25 = [(''lat'', PFloat 53), (''lon'', PFloat (- 113.5))] \<and>
     map_of (h ! 30) ''coordinates'' = Some (PRef 28) \<and>
     h ! 28 = [(''lat'', PFloat 53), (''lon'', PFloat (- 112.5))] \<and>
     map_of (h ! 33) ''coordinates'' = Some (PRef 31) \<and>
     h ! 31 = [(''lat'', PFloat 53.2667), (''lon'', PFloat (- 113.55))] \<and>
     map_of (h ! 36) ''coordinates'' = Some (PRef 34) \<and>
     h ! 34 = [(''lat'', PFloat 53.5167), (''lon'', PFloat (- 113.2))] \<and>
     map_of (h ! 39) ''coordinates'' = Some (PRef 37) \<and>
     h ! 37 = [(''lat'', PFloat 53.8), (''lon'', PFloat (- 113.6))] \<and>
     map_of (h ! 42) ''coordinates'' = Some (PRef 40) \<and>
     h ! 40 = [(''lat'', PFloat 53.7), (''lon'', PFloat (- 114))] \<and>
     map_of (h ! 45) ''coordinates'' = Some (PRef 43) \<and>
     h ! 43 = [(''lat'', PFloat 54.5), (''lon'', PFloat (- 113))] \<and>
     h ! 2 =
       [(''type'', PStr ''city''), (''population'', PInt 100844),
        (''coordinates'', PRef 0), (''website'', PStr ''https://www.reddeer.ca''),
        (''planning_dept'', PStr ''planning@reddeer.ca''),
        (''land_use_bylaw'',
         PStr ''https://www.reddeer.ca/city-government/bylaws-and-policies/land-use-bylaw/''),
        (''zoning_map'',
         PStr ''https://www.reddeer.ca/city-services/planning-and-development/zoning-maps/''),
        (''contact_info'', PRef 1)]"
  by (simp add: loaded_heap_def table_defs Let_def)

lemmas loaded_facts = loaded_facts_let [unfolded Let_def]

lemma md_loaded: "municipalities_data loaded_lookup = 47"
  by (simp add: loaded_lookup_def)

lemmas resolve_eval = find_by_name_read find_in_Cons find_in_Nil md_loaded loaded_facts
  dict_getitem_def dict_items_def dict_get_def the_dict_def pbind_def ret_def
  lower_def char_eval

lemma red_deer_by_name:
  "find_by_name loaded_lookup ''Red Deer'' loaded_heap =
     (Inr (Some 48),
      loaded_heap @
        [AList.update ''category'' (PStr ''city'')
           (AList.update ''name'' (PStr ''Red Deer'') (loaded_heap ! 2))])"
  by (simp add: resolve_eval del: find_in.simps)

lemma edmonton_by_name:
  "find_by_name loaded_lookup ''Edmonton'' loaded_heap =
     (Inr (Some 48),
      loaded_heap @
        [AList.update ''category'' (PStr ''city'')
           (AList.update ''name'' (PStr ''Edmonton'') (loaded_heap ! 5))])"
  by (simp add: resolve_eval del: find_in.simps)

lemma leduc_county_by_name:
  "find_by_name loaded_lookup ''near leduc county line'' loaded_heap =
     (Inr (Some 48),
      loaded_heap @
        [AList.update ''category'' (PStr ''county'')
           (AList.update ''name'' (PStr ''Leduc County'') (loaded_heap ! 33))])"
  by (simp add: resolve_eval del: find_in.simps)

lemma nowhere_by_name:
  "find_by_name loaded_lookup ''Pigeon Lake'' loaded_heap = (Inr None, loaded_heap)"
  by (simp add: resolve_eval del: find_in.simps)

subsection \<open>Resolving by name\<close>

lemma pbind_find_by_name:
  "find_by_name self name h = (r, h') \<Longrightarrow>
     pbind (find_by_name self name) f h = (case r of Inl e \<Rightarrow> (Inl e, h') | Inr x \<Rightarrow> f x h')"
  by (rule pbind_eq)

lemma first_by_name_Nil: "first_by_name self [] h = (Inr None, h)"
  by (simp add: ret_def)

lemma first_by_name_skip:
  "find_by_name self hint h = (Inr None, h) \<Longrightarrow>
     first_by_name self (hint # hints) h = first_by_name self hints h"
  by (simp add: pbind_find_by_name truthy_result_def)

lemma first_by_name_hit:
  "find_by_name self hint h = (Inr (Some r), h') \<Longrightarrow>
     first_by_name self (hint # hints) h = (Inr (Some r), h')"
  by (frule find_by_name_truthy) (simp add: pbind_find_by_name)

lemma first_by_name_raise:
  "find_by_name self hint h = (Inl e, h') \<Longrightarrow>
     first_by_name self (hint # hints) h = (Inl e, h')"
  by (simp add: pbind_find_by_name)

lemma first_by_name_append:
  assumes "\<forall>x\<in>set before. find_by_name self x h = (Inr None, h)"
  shows "first_by_name self (before @ rest) h = first_by_name self rest h"
  using assms by (induction before) (simp_all add: first_by_name_skip del: first_by_name.simps)

lemma first_by_name_result:
  "(\<exists>e. first_by_name self hints h = (Inl e, h)) \<or>
   first_by_name self hints h = (Inr None, h) \<or>
   (\<exists>c n a. a < length h \<and>
      first_by_name self hints h =
        (Inr (Some (length h)),
         h @ [AList.update ''category'' (PStr c) (AList.update ''name'' (PStr n) (h ! a))]))"
proof (induction hints)
  case Nil
  show ?case by (simp add: first_by_name_Nil del: first_by_name.simps)
next
  case (Cons x xs)
  from find_by_name_result [of self x h]
  consider (err) e where "find_by_name self x h = (Inl e, h)"
    | (none) "find_by_name self x h = (Inr None, h)"
    | (some) c n a where "a < length h"
        "find_by_name self x h =
          (Inr (Some (length h)),
           h @ [AList.update ''category'' (PStr c) (AList.update ''name'' (PStr n) (h ! a))])"
    by blast
  then show ?case
  proof cases
    case err
    then show ?thesis by (simp add: first_by_name_raise del: first_by_name.simps)
  next
    case none
    with Cons.IH show ?thesis by (simp add: first_by_name_skip del: first_by_name.simps)
  next
    case some
    from first_by_name_hit [OF some(2)] some(1) show ?thesis by blast
  qed
qed

text \<open>
  C1. The name hints come first: when some hint of the property record matches a
  municipality, and no hint before it does, \<open>find_municipality\<close> returns the record
  that \<open>_find_by_name\<close> gives for that hint, with the heap that call leaves. This holds
  for every property record, whatever its coordinates, its legal description and its
  address are, and for every distance function: the later methods are not reached.
\<close>

theorem name_hint_takes_precedence:
  assumes "municipality_hints pinfo = before @ hint # rest"
    and "\<forall>x\<in>set before. find_by_name self x h = (Inr None, h)"
    and "find_by_name self hint h = (Inr (Some r), h')"
  shows "find_municipality geodesic self pinfo h = (Inr (Some r), h')"
proof -
  have "first_by_name self (municipality_hints pinfo) h = (Inr (Some r), h')"
    using assms by (simp add: first_by_name_append first_by_name_hit del: first_by_name.simps)
  moreover have "truthy_result h' (Some r)"
    using assms(3) by (rule find_by_name_truthy)
  ultimately show ?thesis
    by (simp add: find_municipality_def pbind_def)
qed

subsection \<open>Resolving by coordinates\<close>

lemma closest_inv_prefix:
  assumes "closest_inv g lat lon n h s" and "prefix h h'"
  shows "closest_inv g lat lon n h' s"
proof (cases s)
  case (Pair c cd)
  show ?thesis
  proof (cases c)
    case None
    with assms Pair show ?thesis by (cases cd) (simp_all add: closest_inv_def)
  next
    case (Some r)
    with assms Pair obtain d where cd: "cd = Some d" by (cases cd) (auto simp add: closest_inv_def)
    from assms(1) Pair Some cd obtain a mlat mlon where
      *: "n \<le> r" "r < length h" "d < 50" "map_of (h ! r) ''distance_km'' = Some (PFloat d)"
         "map_of (h ! r) ''coordinates'' = Some (PRef a)" "a < length h"
         "map_of (h ! a) ''lat'' = Some mlat" "map_of (h ! a) ''lon'' = Some mlon"
         "g lat lon mlat mlon = Inr d"
      by (auto simp add: closest_inv_def)
    from assms(2) * have "h' ! r = h ! r" "h' ! a = h ! a" "r < length h'" "a < length h'"
      using prefix_nth prefix_length by (metis, metis, fastforce, fastforce)
    with * Pair Some cd show ?thesis
      by (auto simp add: closest_inv_def)
  qed
qed

lemma copy_and_tag3:
  "a < length h \<Longrightarrow>
   pbind (dict_copy (PRef a)) (\<lambda>result.
   pbind (dict_setitem result k1 v1) (\<lambda>_.
   pbind (dict_setitem result k2 v2) (\<lambda>_.
   pbind (dict_setitem result k3 v3) (\<lambda>_. f result)))) h =
   f (length h) (h @ [AList.update k3 v3 (AList.update k2 v2 (AList.update k1 v1 (h ! a)))])"
  by (simp add: py_defs)

lemma dict_get_read:
  "fst (dict_get v k h) =
     (case v of
        PRef a \<Rightarrow> if a < length h then Inr (map_of (h ! a) k)
                  else Inl (OtherError ''no object at this address'')
      | _ \<Rightarrow> Inl (AttributeError ''get''))"
  by (simp add: dict_get_def the_dict_def pbind_def ret_def split: pyval.split)

lemma scan_category_Nil: "scan_category g lat lon cn [] s h = (Inr s, h)"
  by (simp add: ret_def)

lemma scan_category_ref:
  "a < length h \<Longrightarrow>
   scan_category g lat lon cn ((n, PRef a) # rest) s h =
     (case map_of (h ! a) ''coordinates'' of
        None \<Rightarrow> scan_category g lat lon cn rest s h
      | Some mc \<Rightarrow>
          if \<not> truthy h mc then scan_category g lat lon cn rest s h
          else
            (case fst (dict_getitem mc ''lat'' h) of
               Inl e \<Rightarrow> (Inl e, h)
             | Inr mlat \<Rightarrow>
                 (case fst (dict_getitem mc ''lon'' h) of
                    Inl e \<Rightarrow> (Inl e, h)
                  | Inr mlon \<Rightarrow>
                      (case g lat lon mlat mlon of
                         Inl e \<Rightarrow> (Inl e, h)
                       | Inr d \<Rightarrow>
                           if d < 50 \<and> below_closest d (snd s) then
                             scan_category g lat lon cn rest (Some (length h), Some d)
                               (h @ [AList.update ''distance_km'' (PFloat d)
                                       (AList.update ''category'' (PStr (rstrip_s cn))
                                          (AList.update ''name'' (PStr n) (h ! a)))])
                           else scan_category g lat lon cn rest s h))))"
  by (simp add: pbind_get dict_get_read pbind_getitem copy_and_tag3 raise_def
      split: option.split sum.split)

lemma scan_category_other:
  "(\<forall>a. v = PRef a \<longrightarrow> \<not> a < length h) \<Longrightarrow>
   \<exists>e. scan_category g lat lon cn ((n, v) # rest) s h = (Inl e, h)"
  by (cases v) (simp_all add: pbind_get dict_get_read)

lemma dict_getitem_Inr:
  "fst (dict_getitem v k h) = Inr x \<Longrightarrow> \<exists>c. v = PRef c \<and> c < length h \<and> map_of (h ! c) k = Some x"
  by (auto simp add: dict_getitem_def split: pyval.splits if_splits option.splits)

lemma closest_inv_new:
  assumes "a < length h" and "n \<le> length h" and "d < 50"
    and "map_of (h ! a) ''coordinates'' = Some mc"
    and "fst (dict_getitem mc ''lat'' h) = Inr mlat"
    and "fst (dict_getitem mc ''lon'' h) = Inr mlon"
    and "g lat lon mlat mlon = Inr d"
  shows "closest_inv g lat lon n
     (h @ [AList.update ''distance_km'' (PFloat d)
             (AList.update ''category'' cv (AList.update ''name'' nv (h ! a)))])
     (Some (length h), Some d)"
proof -
  from assms(5) obtain c where c: "mc = PRef c" "c < length h" "map_of (h ! c) ''lat'' = Some mlat"
    by (auto dest: dict_getitem_Inr)
  from assms(6) c(1) have lon: "map_of (h ! c) ''lon'' = Some mlon"
    by (auto dest: dict_getitem_Inr)
  from assms c lon show ?thesis
    by (simp add: closest_inv_def update_conv' nth_append)
qed

lemma scan_category_step:
  assumes inv: "closest_inv g lat lon n h s" and n: "n \<le> length h"
  shows "(\<exists>err. scan_category g lat lon cn (e # es) s h = (Inl err, h)) \<or>
     (\<exists>s1 h1. scan_category g lat lon cn (e # es) s h = scan_category g lat lon cn es s1 h1 \<and>
        prefix h h1 \<and> closest_inv g lat lon n h1 s1)"
proof -
  obtain nm v where e: "e = (nm, v)" by (cases e)
  have same: "\<exists>s1 h1. scan_category g lat lon cn es s h = scan_category g lat lon cn es s1 h1 \<and>
        prefix h h1 \<and> closest_inv g lat lon n h1 s1"
    using inv by blast
  show ?thesis
  proof (cases "\<exists>a. v = PRef a \<and> a < length h")
    case False
    then have "\<forall>a. v = PRef a \<longrightarrow> \<not> a < length h" by blast
    from scan_category_other [OF this] e show ?thesis by blast
  next
    case True
    then obtain a where a: "v = PRef a" "a < length h" by blast
    note step = scan_category_ref [OF a(2), of g lat lon cn nm es s]
    show ?thesis
    proof (cases "map_of (h ! a) ''coordinates''")
      case None
      with step e a same show ?thesis by (simp del: scan_category.simps)
    next
      case (Some mc)
      show ?thesis
      proof (cases "truthy h mc")
        case False
        with step Some e a same show ?thesis by (simp del: scan_category.simps)
      next
        case True
        show ?thesis
        proof (cases "fst (dict_getitem mc ''lat'' h)")
          case (Inl err)
          with step Some True e a show ?thesis by (simp del: scan_category.simps)
        next
          case mlat: (Inr mlat)
          show ?thesis
          proof (cases "fst (dict_getitem mc ''lon'' h)")
            case (Inl err)
            with step Some True mlat e a show ?thesis by (simp del: scan_category.simps)
          next
            case mlon: (Inr mlon)
            show ?thesis
            proof (cases "g lat lon mlat mlon")
              case (Inl err)
              with step Some True mlat mlon e a show ?thesis
                by (simp del: scan_category.simps)
            next
              case d: (Inr d)
              show ?thesis
              proof (cases "d < 50 \<and> below_closest d (snd s)")
                case False
                with step Some True mlat mlon d e a same show ?thesis
                  by (simp del: scan_category.simps)
              next
                case close: True
                let ?h1 = "h @ [AList.update ''distance_km'' (PFloat d)
                    (AList.update ''category'' (PStr (rstrip_s cn))
                       (AList.update ''name'' (PStr nm) (h ! a)))]"
                have eq: "scan_category g lat lon cn (e # es) s h =
                    scan_category g lat lon cn es (Some (length h), Some d) ?h1"
                  using step Some True mlat mlon d e a close
                  by (simp del: scan_category.simps)
                have "closest_inv g lat lon n ?h1 (Some (length h), Some d)"
                  using a(2) n close Some mlat mlon d by (intro closest_inv_new) simp_all
                moreover have "prefix h ?h1" by simp
                ultimately show ?thesis using eq by blast
              qed
            qed
          qed
        qed
      qed
    qed
  qed
qed

lemma scan_category_inv:
  assumes "closest_inv g lat lon n h s" and "n \<le> length h"
  shows "prefix h (snd (scan_category g lat lon cn es s h)) \<and>
     (\<forall>s'. fst (scan_category g lat lon cn es s h) = Inr s' \<longrightarrow>
        closest_inv g lat lon n (snd (scan_category g lat lon cn es s h)) s')"
  using assms
proof (induction es arbitrary: s h)
  case Nil
  then show ?case by (simp add: scan_category_Nil del: scan_category.simps)
next
  case (Cons e es)
  from scan_category_step [OF Cons.prems, of cn e es]
  consider (err) err where "scan_category g lat lon cn (e # es) s h = (Inl err, h)"
    | (go) s1 h1 where
        "scan_category g lat lon cn (e # es) s h = scan_category g lat lon cn es s1 h1"
        "prefix h h1" "closest_inv g lat lon n h1 s1"
    by blast
  then show ?case
  proof cases
    case err
    then show ?thesis by simp
  next
    case go
    from go(2) Cons.prems(2) have "n \<le> length h1"
      using prefix_length by fastforce
    from Cons.IH [OF go(3) this] go(1,2) show ?thesis
      using prefix_order.trans by auto
  qed
qed

lemma scan_categories_Nil: "scan_categories g lat lon [] s h = (Inr s, h)"
  by (simp add: ret_def)

lemma pbind_scan_category:
  "scan_category g lat lon cn es s h = (r, h') \<Longrightarrow>
     pbind (scan_category g lat lon cn es s) f h =
       (case r of Inl e \<Rightarrow> (Inl e, h') | Inr x \<Rightarrow> f x h')"
  by (rule pbind_eq)

lemma scan_categories_inv:
  assumes "closest_inv g lat lon n h s" and "n \<le> length h"
  shows "prefix h (snd (scan_categories g lat lon cats s h)) \<and>
     (\<forall>s'. fst (scan_categories g lat lon cats s h) = Inr s' \<longrightarrow>
        closest_inv g lat lon n (snd (scan_categories g lat lon cats s h)) s')"
  using assms
proof (induction cats arbitrary: s h)
  case Nil
  then show ?case by (simp add: scan_categories_Nil del: scan_categories.simps)
next
  case (Cons cat cats)
  obtain cn cd where cat: "cat = (cn, cd)" by (cases cat)
  show ?case
  proof (cases "fst (dict_items cd h)")
    case (Inl e)
    with cat show ?thesis by (simp add: pbind_items)
  next
    case (Inr entries)
    obtain r h1 where sc: "scan_category g lat lon cn entries s h = (r, h1)"
      by (cases "scan_category g lat lon cn entries s h")
    from scan_category_inv [OF Cons.prems, of cn entries] sc
    have h1: "prefix h h1" and inv1: "\<And>s'. r = Inr s' \<Longrightarrow> closest_inv g lat lon n h1 s'"
      by simp_all
    show ?thesis
    proof (cases r)
      case (Inl e)
      with cat Inr sc h1 show ?thesis
        by (simp add: pbind_items pbind_scan_category del: scan_category.simps)
    next
      case s1: (Inr s1)
      have eq: "scan_categories g lat lon (cat # cats) s h = scan_categories g lat lon cats s1 h1"
        using cat Inr sc s1
        by (simp add: pbind_items pbind_scan_category del: scan_category.simps)
      from h1 Cons.prems(2) have "n \<le> length h1"
        using prefix_length by fastforce
      from Cons.IH [OF inv1 [OF s1] this] eq h1 show ?thesis
        using prefix_order.trans by auto
    qed
  qed
qed

lemma find_by_coordinates_inv:
  "prefix h (snd (find_by_coordinates g self lat lon h)) \<and>
   (\<forall>r. fst (find_by_coordinates g self lat lon h) = Inr (Some r) \<longrightarrow>
      (\<exists>d. closest_inv g lat lon (length h) (snd (find_by_coordinates g self lat lon h))
             (Some r, Some d)))"
proof (cases "fst (dict_items (PRef (municipalities_data self)) h)")
  case (Inl e)
  then show ?thesis by (simp add: find_by_coordinates_def pbind_items)
next
  case (Inr cats)
  obtain r h1 where sc: "scan_categories g lat lon cats (None, None) h = (r, h1)"
    by (cases "scan_categories g lat lon cats (None, None) h")
  have "closest_inv g lat lon (length h) h (None, None)"
    by (simp add: closest_inv_def)
  from scan_categories_inv [OF this, of cats] sc
  have h1: "prefix h h1" and inv1: "\<And>s'. r = Inr s' \<Longrightarrow> closest_inv g lat lon (length h) h1 s'"
    by simp_all
  have eq: "find_by_coordinates g self lat lon h =
      (case r of Inl e \<Rightarrow> (Inl e, h1) | Inr (c, d) \<Rightarrow> (Inr c, h1))"
    using Inr sc
    by (simp add: find_by_coordinates_def pbind_items pbind_eq [where m = "scan_categories g lat lon cats (None, None)"] ret_def
        split: sum.split prod.split del: scan_categories.simps)
  show ?thesis
  proof (cases r)
    case (Inl e)
    with eq h1 show ?thesis by simp
  next
    case (Inr s1)
    obtain c d where s1: "s1 = (c, d)" by (cases s1)
    from inv1 [OF Inr] s1 have inv: "closest_inv g lat lon (length h) h1 (c, d)" by simp
    have "\<And>r. c = Some r \<Longrightarrow> \<exists>x. d = Some x"
      using inv by (cases d) (simp_all add: closest_inv_def)
    with eq Inr s1 h1 inv show ?thesis by auto
  qed
qed

text \<open>
  C7. When \<open>_find_by_coordinates\<close> returns a municipality, the object it returns is new,
  it records a distance below 50 under \<open>distance_km\<close>, and that distance is the
  distance from the query point to the coordinates of that municipality. The other
  outcomes are \<open>None\<close> and an exception.
\<close>

theorem find_by_coordinates_within_50:
  assumes "find_by_coordinates geodesic self lat lon h = (Inr (Some r), h')"
  shows "\<exists>d c mlat mlon.
     length h \<le> r \<and> r < length h' \<and>
     map_of (h' ! r) ''distance_km'' = Some (PFloat d) \<and> d < 50 \<and>
     map_of (h' ! r) ''coordinates'' = Some (PRef c) \<and> c < length h' \<and>
     map_of (h' ! c) ''lat'' = Some mlat \<and> map_of (h' ! c) ''lon'' = Some mlon \<and>
     geodesic lat lon mlat mlon = Inr d"
proof -
  from find_by_coordinates_inv [of h geodesic self lat lon] assms
  obtain d where "closest_inv geodesic lat lon (length h) h' (Some r, Some d)"
    by auto
  then show ?thesis
    by (auto simp add: closest_inv_def)
qed

lemmas scan_eval = find_by_coordinates_def scan_categories_Nil scan_category_Nil
  scan_category_ref md_loaded loaded_facts dict_items_def dict_getitem_def the_dict_def
  pbind_def ret_def truthy_def below_closest_def flat_distance_def num_of_def rstrip_s_def
  nth_append

lemma near_edmonton:
  "find_by_coordinates flat_distance loaded_lookup 53.5 (- 113.5) loaded_heap =
     (Inr (Some 48),
      loaded_heap @
        [AList.update ''distance_km'' (PFloat 5.8053)
           (AList.update ''category'' (PStr ''citie'')
              (AList.update ''name'' (PStr ''Edmonton'') (loaded_heap ! 5)))])"
  by (simp add: scan_eval del: scan_category.simps)

subsection \<open>What the resolver does to the heap\<close>

lemma allocatesD:
  "allocates m \<Longrightarrow> prefix h (snd (m h))"
  "allocates m \<Longrightarrow> fst (m h) = Inr (Some r) \<Longrightarrow> length h \<le> r \<and> r < length (snd (m h))"
  by (simp_all add: allocates_def)

lemma allocates_ret_None: "allocates (ret None)"
  by (simp add: allocates_def ret_def)

lemma allocates_find_by_name: "allocates (find_by_name self name)"
  unfolding allocates_def
proof (intro allI)
  fix h
  from find_by_name_result [of self name h]
  show "prefix h (snd (find_by_name self name h)) \<and>
     (\<forall>r. fst (find_by_name self name h) = Inr (Some r) \<longrightarrow>
        length h \<le> r \<and> r < length (snd (find_by_name self name h)))"
    by auto
qed

lemma allocates_first_by_name: "allocates (first_by_name self hints)"
  unfolding allocates_def
proof (intro allI)
  fix h
  from first_by_name_result [of self hints h]
  show "prefix h (snd (first_by_name self hints h)) \<and>
     (\<forall>r. fst (first_by_name self hints h) = Inr (Some r) \<longrightarrow>
        length h \<le> r \<and> r < length (snd (first_by_name self hints h)))"
    by auto
qed

lemma allocates_find_by_coordinates: "allocates (find_by_coordinates g self lat lon)"
  unfolding allocates_def
proof (intro allI)
  fix h
  from find_by_coordinates_inv [of h g self lat lon]
  show "prefix h (snd (find_by_coordinates g self lat lon h)) \<and>
     (\<forall>r. fst (find_by_coordinates g self lat lon h) = Inr (Some r) \<longrightarrow>
        length h \<le> r \<and> r < length (snd (find_by_coordinates g self lat lon h)))"
    by (auto simp add: closest_inv_def)
qed

lemma allocates_find_by_legal_description: "allocates (find_by_legal_description self ld)"
  by (simp add: find_by_legal_description_def allocates_find_by_name allocates_ret_None
      split: option.split prod.split)

lemma allocates_find_by_address_components: "allocates (find_by_address_components self a)"
  by (simp add: find_by_address_components_def allocates_first_by_name)

lemma allocates_orelse:
  assumes m: "allocates m" and nxt: "allocates nxt"
  shows "allocates (pbind m (\<lambda>r h. if truthy_result h r then (Inr r, h) else nxt h))"
  unfolding allocates_def
proof (intro allI)
  fix h
  obtain x h1 where mh: "m h = (x, h1)" by (cases "m h")
  from allocatesD(1) [OF m, of h] mh have p1: "prefix h h1" by simp
  let ?R = "pbind m (\<lambda>r h. if truthy_result h r then (Inr r, h) else nxt h) h"
  show "prefix h (snd ?R) \<and> (\<forall>r. fst ?R = Inr (Some r) \<longrightarrow> length h \<le> r \<and> r < length (snd ?R))"
  proof (cases x)
    case (Inl e)
    with mh p1 show ?thesis by (simp add: pbind_def)
  next
    case (Inr r0)
    show ?thesis
    proof (cases "truthy_result h1 r0")
      case True
      with mh Inr have "?R = (Inr r0, h1)" by (simp add: pbind_def)
      with p1 allocatesD(2) [OF m, of h] mh Inr show ?thesis by auto
    next
      case False
      with mh Inr have R: "?R = nxt h1" by (simp add: pbind_def)
      from allocatesD(1) [OF nxt, of h1] p1 have "prefix h (snd (nxt h1))"
        by (rule prefix_order.trans [rotated])
      moreover have "\<And>r. fst (nxt h1) = Inr (Some r) \<Longrightarrow> length h \<le> r \<and> r < length (snd (nxt h1))"
        using allocatesD(2) [OF nxt, of h1] p1 prefix_length by fastforce
      ultimately show ?thesis using R by simp
    qed
  qed
qed

lemma allocates_method4: "allocates (method4 self pinfo)"
proof (cases "parsed_address pinfo")
  case None
  then show ?thesis by (simp add: method4_def allocates_ret_None)
next
  case (Some a)
  have "(\<lambda>r h. if truthy_result h r then (Inr r, h) else (Inr None, h)) =
        (\<lambda>r h. if truthy_result h r then (Inr r, h) else ret None h)"
    by (intro ext) (simp add: ret_def cong: if_cong)
  with Some show ?thesis
    using allocates_orelse [OF allocates_find_by_address_components allocates_ret_None]
    by (simp add: method4_def)
qed

lemma allocates_method3: "allocates (method3 self pinfo)"
  by (simp add: method3_def allocates_method4 allocates_orelse
      allocates_find_by_legal_description split: option.split)

lemma allocates_method2: "allocates (method2 g self pinfo)"
  by (simp add: method2_def allocates_method3 allocates_orelse
      allocates_find_by_coordinates split: option.split)

lemma allocates_find_municipality: "allocates (find_municipality g self pinfo)"
  by (simp add: find_municipality_def allocates_method2 allocates_orelse
      allocates_first_by_name)

lemma copy_and_tag2:
  "a < length h \<Longrightarrow>
   pbind (dict_copy (PRef a)) (\<lambda>result.
   pbind (dict_setitem result k1 v1) (\<lambda>_.
   pbind (dict_setitem result k2 v2) (\<lambda>_. f result))) h =
   f (length h) (h @ [AList.update k2 v2 (AList.update k1 v1 (h ! a))])"
  by (simp add: py_defs)

lemma copy_fails:
  "(\<forall>a. v = PRef a \<longrightarrow> \<not> a < length h) \<Longrightarrow> \<exists>e. pbind (dict_copy v) f h = (Inl e, h)"
  by (cases v) (simp_all add: py_defs)

lemma copy_category_Nil: "copy_category cn [] acc h = (Inr acc, h)"
  by (simp add: ret_def)

lemma copy_category_fails:
  "(\<forall>a. v = PRef a \<longrightarrow> \<not> a < length h) \<Longrightarrow>
     \<exists>e. copy_category cn ((nm, v) # es) acc h = (Inl e, h)"
  by (cases v) (simp_all add: py_defs)

lemma copy_category_ref:
  "a < length h \<Longrightarrow>
     copy_category cn ((nm, PRef a) # es) acc h =
       copy_category cn es (acc @ [length h])
         (h @ [AList.update ''category'' (PStr (rstrip_s cn))
                 (AList.update ''name'' (PStr nm) (h ! a))])"
  by (simp add: copy_and_tag2)

lemma copy_category_inv:
  assumes "\<forall>a\<in>set acc. n \<le> a" and "n \<le> length h"
  shows "prefix h (snd (copy_category cn es acc h)) \<and>
     (\<forall>rs. fst (copy_category cn es acc h) = Inr rs \<longrightarrow> (\<forall>a\<in>set rs. n \<le> a))"
  using assms
proof (induction es arbitrary: acc h)
  case Nil
  then show ?case by (simp add: copy_category_Nil del: copy_category.simps)
next
  case (Cons e es)
  obtain nm v where e: "e = (nm, v)" by (cases e)
  show ?case
  proof (cases "\<exists>a. v = PRef a \<and> a < length h")
    case False
    then have "\<forall>a. v = PRef a \<longrightarrow> \<not> a < length h" by blast
    from copy_category_fails [OF this, of cn nm es acc] e show ?thesis by auto
  next
    case True
    then obtain a where a: "v = PRef a" "a < length h" by blast
    let ?h1 = "h @ [AList.update ''category'' (PStr (rstrip_s cn))
                      (AList.update ''name'' (PStr nm) (h ! a))]"
    have eq: "copy_category cn (e # es) acc h = copy_category cn es (acc @ [length h]) ?h1"
      using e a by (simp add: copy_category_ref del: copy_category.simps)
    have acc': "\<forall>x\<in>set (acc @ [length h]). n \<le> x" using Cons.prems by auto
    have len': "n \<le> length ?h1" using Cons.prems by simp
    note ih = Cons.IH [OF acc' len']
    have p: "prefix h ?h1" by simp
    from ih have "prefix h (snd (copy_category cn es (acc @ [length h]) ?h1))"
      using prefix_order.trans [OF p] by blast
    with ih eq show ?thesis by simp
  qed
qed

lemma pbind_copy_category:
  "copy_category cn es acc h = (r, h') \<Longrightarrow>
     pbind (copy_category cn es acc) f h =
       (case r of Inl e \<Rightarrow> (Inl e, h') | Inr x \<Rightarrow> f x h')"
  by (rule pbind_eq)

lemma copy_categories_Nil: "copy_categories [] acc h = (Inr acc, h)"
  by (simp add: ret_def)

lemma copy_categories_inv:
  assumes "\<forall>a\<in>set acc. n \<le> a" and "n \<le> length h"
  shows "prefix h (snd (copy_categories cats acc h)) \<and>
     (\<forall>rs. fst (copy_categories cats acc h) = Inr rs \<longrightarrow> (\<forall>a\<in>set rs. n \<le> a))"
  using assms
proof (induction cats arbitrary: acc h)
  case Nil
  then show ?case by (simp add: copy_categories_Nil del: copy_categories.simps)
next
  case (Cons cat cats)
  obtain cn cd where cat: "cat = (cn, cd)" by (cases cat)
  show ?case
  proof (cases "fst (dict_items cd h)")
    case (Inl e)
    with cat show ?thesis by (simp add: pbind_items)
  next
    case (Inr entries)
    obtain r h1 where cc: "copy_category cn entries acc h = (r, h1)"
      by (cases "copy_category cn entries acc h")
    from copy_category_inv [OF Cons.prems, of cn entries] cc
    have h1: "prefix h h1" and acc1: "\<And>rs. r = Inr rs \<Longrightarrow> \<forall>a\<in>set rs. n \<le> a"
      by simp_all
    show ?thesis
    proof (cases r)
      case (Inl e)
      with cat Inr cc h1 show ?thesis
        by (simp add: pbind_items pbind_copy_category del: copy_category.simps)
    next
      case rs: (Inr rs)
      have eq: "copy_categories (cat # cats) acc h = copy_categories cats rs h1"
        using cat Inr cc rs
        by (simp add: pbind_items pbind_copy_category del: copy_category.simps)
      from h1 Cons.prems(2) have len: "n \<le> length h1"
        using prefix_length by fastforce
      note ih = Cons.IH [OF acc1 [OF rs] len]
      from ih have "prefix h (snd (copy_categories cats rs h1))"
        using prefix_order.trans [OF h1] by blast
      with ih eq show ?thesis by simp
    qed
  qed
qed

lemma get_supported_municipalities_inv:
  "prefix h (snd (get_supported_municipalities self h)) \<and>
   (\<forall>rs. fst (get_supported_municipalities self h) = Inr rs \<longrightarrow>
      (\<forall>a\<in>set rs. length h \<le> a))"
proof (cases "fst (dict_items (PRef (municipalities_data self)) h)")
  case (Inl e)
  then show ?thesis by (simp add: get_supported_municipalities_def pbind_items)
next
  case (Inr cats)
  obtain r h1 where cc: "copy_categories cats [] h = (r, h1)"
    by (cases "copy_categories cats [] h")
  have "\<forall>a\<in>set []. length h \<le> a" by simp
  from copy_categories_inv [OF this, of h cats] cc
  have h1: "prefix h h1" and rs: "\<And>rs. r = Inr rs \<Longrightarrow> \<forall>a\<in>set rs. length h \<le> a"
    by simp_all
  have eq: "get_supported_municipalities self h =
      (case r of Inl e \<Rightarrow> (Inl e, h1) | Inr ms \<Rightarrow> (Inr (sort_key (name_key h1) ms), h1))"
    using Inr cc
    by (simp add: get_supported_municipalities_def pbind_items
        pbind_eq [where m = "copy_categories cats []"] del: copy_categories.simps)
  show ?thesis
  proof (cases r)
    case (Inl e)
    with eq h1 show ?thesis by simp
  next
    case (Inr ms)
    with eq h1 rs [OF Inr] show ?thesis by simp
  qed
qed

lemma get_municipality_details_result:
  "(\<exists>e. get_municipality_details self name h = (Inl e, h)) \<or>
   get_municipality_details self name h = (Inr None, h) \<or>
   (\<exists>obj times. get_municipality_details self name h =
      (Inr (Some (length h)), h @ [obj, times]))"
proof -
  from find_by_name_result [of self name h]
  consider (err) e where "find_by_name self name h = (Inl e, h)"
    | (none) "find_by_name self name h = (Inr None, h)"
    | (some) c n a where "a < length h"
        "find_by_name self name h =
          (Inr (Some (length h)),
           h @ [AList.update ''category'' (PStr c) (AList.update ''name'' (PStr n) (h ! a))])"
    by blast
  then show ?thesis
  proof cases
    case err
    then show ?thesis by (simp add: get_municipality_details_def pbind_find_by_name)
  next
    case none
    then show ?thesis
      by (simp add: get_municipality_details_def pbind_find_by_name truthy_result_def)
  next
    case some
    from find_by_name_truthy [OF some(2)] some(2)
    show ?thesis
      by (simp add: get_municipality_details_def pbind_find_by_name py_defs nth_append)
  qed
qed

lemma allocates_get_municipality_details: "allocates (get_municipality_details self name)"
  unfolding allocates_def
proof (intro allI)
  fix h
  from get_municipality_details_result [of self name h]
  show "prefix h (snd (get_municipality_details self name h)) \<and>
     (\<forall>r. fst (get_municipality_details self name h) = Inr (Some r) \<longrightarrow>
        length h \<le> r \<and> r < length (snd (get_municipality_details self name h)))"
    by auto
qed

text \<open>
  C9. Each operation of the resolver leaves every object that was in the heap before
  the call as it was, the table and its records among them: the heap after the call
  starts with the heap before it, whatever the outcome of the call. Every address that
  an operation returns is the address of an object made during the call, a copy and not
  a record of the table.
\<close>

theorem table_never_mutated:
  "prefix h (snd (find_municipality geodesic self pinfo h)) \<and>
   prefix h (snd (find_by_name self name h)) \<and>
   prefix h (snd (find_by_coordinates geodesic self lat lon h)) \<and>
   prefix h (snd (get_supported_municipalities self h)) \<and>
   prefix h (snd (get_municipality_details self name h)) \<and>
   (\<forall>r. fst (find_municipality geodesic self pinfo h) = Inr (Some r) \<longrightarrow> length h \<le> r) \<and>
   (\<forall>r. fst (find_by_name self name h) = Inr (Some r) \<longrightarrow> length h \<le> r) \<and>
   (\<forall>r. fst (find_by_coordinates geodesic self lat lon h) = Inr (Some r) \<longrightarrow> length h \<le> r) \<and>
   (\<forall>rs. fst (get_supported_municipalities self h) = Inr rs \<longrightarrow> (\<forall>r\<in>set rs. length h \<le> r)) \<and>
   (\<forall>r. fst (get_municipality_details self name h) = Inr (Some r) \<longrightarrow> length h \<le> r)"
proof -
  note fm = allocates_find_municipality [of geodesic self pinfo, unfolded allocates_def,
      THEN spec, of h]
  note fn = allocates_find_by_name [of self name, unfolded allocates_def, THEN spec, of h]
  note fc = allocates_find_by_coordinates [of geodesic self lat lon, unfolded allocates_def,
      THEN spec, of h]
  note gd = allocates_get_municipality_details [of self name, unfolded allocates_def,
      THEN spec, of h]
  note gs = get_supported_municipalities_inv [of h self]
  from fm fn fc gd gs show ?thesis by simp
qed

subsection \<open>The resolver on the table as loaded\<close>

lemma ponoka_by_name:
  "find_by_name loaded_lookup ''Ponoka'' loaded_heap = (Inr None, loaded_heap)"
  by (simp add: resolve_eval del: find_in.simps)

lemma near_red_deer:
  "find_by_coordinates flat_distance loaded_lookup 52.27 (- 113.81) loaded_heap =
     (Inr (Some 48),
      loaded_heap @
        [AList.update ''distance_km'' (PFloat 0.3441)
           (AList.update ''category'' (PStr ''citie'')
              (AList.update ''name'' (PStr ''Red Deer'') (loaded_heap ! 2)))])"
  by (simp add: scan_eval del: scan_category.simps)

theorem name_hint_takes_precedence_witness:
  "municipality_hints hinted_property = [''Ponoka'', ''Edmonton''] \<and>
   find_by_name loaded_lookup ''Ponoka'' loaded_heap = (Inr None, loaded_heap) \<and>
   coordinates hinted_property =
     Some \<lparr>latitude = 52.27, longitude = - 113.81,
           display_name = ''Red Deer, Alberta, Canada''\<rparr> \<and>
   (\<exists>r h'. find_by_coordinates flat_distance loaded_lookup 52.27 (- 113.81) loaded_heap =
              (Inr (Some r), h') \<and>
            map_of (h' ! r) ''name'' = Some (PStr ''Red Deer'')) \<and>
   (\<exists>r h'. find_municipality flat_distance loaded_lookup hinted_property loaded_heap =
              (Inr (Some r), h') \<and>
            map_of (h' ! r) ''name'' = Some (PStr ''Edmonton''))"
proof -
  have hints: "municipality_hints hinted_property = [''Ponoka''] @ ''Edmonton'' # []"
    by (simp add: hinted_property_def)
  have before: "\<forall>x\<in>set [''Ponoka'']. find_by_name loaded_lookup x loaded_heap = (Inr None, loaded_heap)"
    by (simp add: ponoka_by_name)
  note found = name_hint_takes_precedence [OF hints before edmonton_by_name, of flat_distance]
  have 1: "\<exists>r h'. find_municipality flat_distance loaded_lookup hinted_property loaded_heap =
              (Inr (Some r), h') \<and>
            map_of (h' ! r) ''name'' = Some (PStr ''Edmonton'')"
    unfolding found by (simp add: update_conv' loaded_facts nth_append)
  have 2: "\<exists>r h'. find_by_coordinates flat_distance loaded_lookup 52.27 (- 113.81) loaded_heap =
              (Inr (Some r), h') \<and>
            map_of (h' ! r) ''name'' = Some (PStr ''Red Deer'')"
    unfolding near_red_deer by (simp add: update_conv' loaded_facts nth_append)
  from 1 2 ponoka_by_name show ?thesis
    by (simp add: hinted_property_def)
qed

theorem find_by_coordinates_within_50_witness:
  "find_by_coordinates flat_distance loaded_lookup 53.5 (- 113.5) loaded_heap =
     (Inr (Some 48),
      loaded_heap @
        [AList.update ''distance_km'' (PFloat 5.8053)
           (AList.update ''category'' (PStr ''citie'')
              (AList.update ''name'' (PStr ''Edmonton'') (loaded_heap ! 5)))]) \<and>
   (\<exists>d c mlat mlon h'.
      h' = snd (find_by_coordinates flat_distance loaded_lookup 53.5 (- 113.5) loaded_heap) \<and>
      length loaded_heap \<le> 48 \<and> 48 < length h' \<and>
      map_of (h' ! 48) ''distance_km'' = Some (PFloat d) \<and> d < 50 \<and>
      map_of (h' ! 48) ''coordinates'' = Some (PRef c) \<and> c < length h' \<and>
      map_of (h' ! c) ''lat'' = Some mlat \<and> map_of (h' ! c) ''lon'' = Some mlon \<and>
      flat_distance 53.5 (- 113.5) mlat mlon = Inr d)"
  using find_by_coordinates_within_50 [OF near_edmonton] near_edmonton
  by simp

lemma red_deer_details:
  "get_municipality_details loaded_lookup ''Red Deer'' loaded_heap =
     (Inr (Some 48),
      loaded_heap @
        [AList.update ''typical_processing_times'' (PRef 49)
           (AList.update ''supported_services''
              (PStrs [''Land Use Bylaw Information'', ''Zoning Maps'',
                      ''Development Permits'', ''Subdivision Applications'',
                      ''Planning Consultation''])
              (AList.update ''category'' (PStr ''city'')
                 (AList.update ''name'' (PStr ''Red Deer'') (loaded_heap ! 2)))),
         [(''development_permit'', PStr ''4-6 weeks''),
          (''subdivision'', PStr ''3-6 months''),
          (''rezoning'', PStr ''6-12 months'')]])"
  unfolding get_municipality_details_def pbind_find_by_name [OF red_deer_by_name]
  using find_by_name_truthy [OF red_deer_by_name]
  by (simp add: py_defs nth_append list_update_append loaded_facts)

theorem table_never_mutated_witness:
  "fst (get_municipality_details loaded_lookup ''Red Deer'' loaded_heap) = Inr (Some 48) \<and>
   length loaded_heap \<le> 48 \<and>
   prefix loaded_heap (snd (get_municipality_details loaded_lookup ''Red Deer'' loaded_heap)) \<and>
   map_of (snd (get_municipality_details loaded_lookup ''Red Deer'' loaded_heap) ! 48)
     ''typical_processing_times'' = Some (PRef 49) \<and>
   map_of (loaded_heap ! 2) ''typical_processing_times'' = None"
proof -
  have t: "map_of (loaded_heap ! 2) ''typical_processing_times'' = None"
    by (simp add: loaded_facts)
  from table_never_mutated [of loaded_heap flat_distance loaded_lookup hinted_property
      "''Red Deer''" 0 0] t
  show ?thesis
    by (simp add: red_deer_details loaded_facts update_conv' nth_append)
qed

subsection \<open>Resolving by legal description\<close>

lemma parse_sw_quarter: "parse_legal_description ''SW 14-45-25-W4'' = sw_quarter"
  by (simp add: parse_legal_description_def legal_patterns_def quarter_section_pattern_def
      legal_components_of_def sw_quarter_def strip_def rx_eval)

lemma parse_township_50: "parse_legal_description ''NE 7-50-25-W4'' = township_50"
  by (simp add: parse_legal_description_def legal_patterns_def quarter_section_pattern_def
      legal_components_of_def township_50_def strip_def rx_eval)

lemma hints_of_sw_quarter: "extract_municipality_hints '' SW 14-45-25-W4 '' = []"
  by (simp add: extract_municipality_hints_def municipalities_def counties_def rx_eval)

lemma parse_sw_property:
  "parse_property_info geolocator [] ''SW 14-45-25-W4'' [] = Inr (Some sw_property)"
  using hints_of_sw_quarter
  by (simp add: parse_property_info_def collect_property_info_def parse_sw_quarter
      sw_property_def is_valid_property_info_def has_raw_input_def)

lemmas int_eval = py_int_def strip_def nat_of_digits_def char_eval

lemma township_range_sw_quarter: "township_range sw_quarter = Some (45, 25)"
  by (simp add: township_range_def sw_quarter_def int_eval)

lemma township_range_township_50: "township_range township_50 = Some (50, 25)"
  by (simp add: township_range_def township_50_def int_eval)

lemma athabasca_by_name:
  "find_by_name loaded_lookup ''Athabasca'' loaded_heap =
     (Inr (Some 48),
      loaded_heap @
        [AList.update ''category'' (PStr ''city'')
           (AList.update ''name'' (PStr ''Athabasca'') (loaded_heap ! 17))])"
  by (simp add: resolve_eval del: find_in.simps)

lemma py_int_empty: "py_int [] = None"
  by (simp add: py_int_def strip_def)

lemma township_range_Some:
  "township_range ld = Some (t, r) \<longleftrightarrow>
     legal_type ld \<in> {''quarter_section'', ''section''} \<and>
     (\<exists>ts rs. map_of (legal_components ld) ''township'' = Some ts \<and>
        map_of (legal_components ld) ''range'' = Some rs \<and>
        py_int ts = Some t \<and> py_int rs = Some r)"
  by (auto simp add: township_range_def Let_def py_int_empty split: option.splits)

text \<open>
  C4, amended. The strategy reads a township and a range exactly when the type is
  \<open>quarter_section\<close> or \<open>section\<close> and both components are integers; every other
  legal description, a parse failure included, gives no match. The three conditions of
  the source overlap at townships 50 and 60, and the order of the chain decides there:
  with a range from 20 to 30, the result is what \<open>_find_by_name\<close> gives for Red Deer
  when the township is from 40 to 50, for Edmonton when it is from 51 to 60, for
  Athabasca when it is from 61 to 70, and no match otherwise. These three bands are
  disjoint. On the table as loaded the three names give the three records.
\<close>

theorem legal_description_bands:
  "(township_range ld = Some (t, r) \<longleftrightarrow>
      legal_type ld \<in> {''quarter_section'', ''section''} \<and>
      (\<exists>ts rs. map_of (legal_components ld) ''township'' = Some ts \<and>
         map_of (legal_components ld) ''range'' = Some rs \<and>
         py_int ts = Some t \<and> py_int rs = Some r)) \<and>
   find_by_legal_description self ld =
     (case township_range ld of
        None \<Rightarrow> ret None
      | Some (township_int, range_int) \<Rightarrow>
          if 20 \<le> range_int \<and> range_int \<le> 30 \<and> 40 \<le> township_int \<and> township_int \<le> 50
          then find_by_name self ''Red Deer''
          else if 20 \<le> range_int \<and> range_int \<le> 30 \<and> 51 \<le> township_int \<and> township_int \<le> 60
          then find_by_name self ''Edmonton''
          else if 20 \<le> range_int \<and> range_int \<le> 30 \<and> 61 \<le> township_int \<and> township_int \<le> 70
          then find_by_name self ''Athabasca''
          else ret None) \<and>
   (\<exists>h'. find_by_name loaded_lookup ''Red Deer'' loaded_heap = (Inr (Some 48), h') \<and>
         map_of (h' ! 48) ''name'' = Some (PStr ''Red Deer'')) \<and>
   (\<exists>h'. find_by_name loaded_lookup ''Edmonton'' loaded_heap = (Inr (Some 48), h') \<and>
         map_of (h' ! 48) ''name'' = Some (PStr ''Edmonton'')) \<and>
   (\<exists>h'. find_by_name loaded_lookup ''Athabasca'' loaded_heap = (Inr (Some 48), h') \<and>
         map_of (h' ! 48) ''name'' = Some (PStr ''Athabasca''))"
proof -
  have bands: "find_by_legal_description self ld =
     (case township_range ld of
        None \<Rightarrow> ret None
      | Some (township_int, range_int) \<Rightarrow>
          if 20 \<le> range_int \<and> range_int \<le> 30 \<and> 40 \<le> township_int \<and> township_int \<le> 50
          then find_by_name self ''Red Deer''
          else if 20 \<le> range_int \<and> range_int \<le> 30 \<and> 51 \<le> township_int \<and> township_int \<le> 60
          then find_by_name self ''Edmonton''
          else if 20 \<le> range_int \<and> range_int \<le> 30 \<and> 61 \<le> township_int \<and> township_int \<le> 70
          then find_by_name self ''Athabasca''
          else ret None)"
    by (auto simp add: find_by_legal_description_def red_deer_band_def edmonton_band_def
        athabasca_band_def split: option.split)
  have names:
    "\<exists>h'. find_by_name loaded_lookup ''Red Deer'' loaded_heap = (Inr (Some 48), h') \<and>
         map_of (h' ! 48) ''name'' = Some (PStr ''Red Deer'')"
    "\<exists>h'. find_by_name loaded_lookup ''Edmonton'' loaded_heap = (Inr (Some 48), h') \<and>
         map_of (h' ! 48) ''name'' = Some (PStr ''Edmonton'')"
    "\<exists>h'. find_by_name loaded_lookup ''Athabasca'' loaded_heap = (Inr (Some 48), h') \<and>
         map_of (h' ! 48) ''name'' = Some (PStr ''Athabasca'')"
    by (simp_all add: red_deer_by_name edmonton_by_name athabasca_by_name update_conv'
        nth_append loaded_facts)
  from township_range_Some [of ld t r] bands names show ?thesis
    by blast
qed

text \<open>
  C4, as stated: the bands are township 40-50, 50-60 and 60-70, each with range 20-30,
  and they are pairwise disjoint. Township 50 with range 25 satisfies the condition of
  the Red Deer band and the condition of the Edmonton band, so the bands are not
  disjoint; and for it the strategy returns Red Deer, not Edmonton.
\<close>

theorem legal_bands_overlap_counterexample:
  "township_range township_50 = Some (50, 25) \<and>
   red_deer_band 50 25 \<and> edmonton_band 50 25 \<and>
   find_by_legal_description loaded_lookup township_50 loaded_heap =
     find_by_name loaded_lookup ''Red Deer'' loaded_heap \<and>
   (\<exists>r h'. find_by_legal_description loaded_lookup township_50 loaded_heap =
              (Inr (Some r), h') \<and>
            map_of (h' ! r) ''name'' = Some (PStr ''Red Deer''))"
proof -
  have eq: "find_by_legal_description loaded_lookup township_50 loaded_heap =
     find_by_name loaded_lookup ''Red Deer'' loaded_heap"
    by (simp add: find_by_legal_description_def township_range_township_50 red_deer_band_def)
  have "\<exists>r h'. find_by_legal_description loaded_lookup township_50 loaded_heap =
              (Inr (Some r), h') \<and>
            map_of (h' ! r) ''name'' = Some (PStr ''Red Deer'')"
    unfolding eq red_deer_by_name by (simp add: update_conv' nth_append loaded_facts)
  with eq show ?thesis
    by (simp add: township_range_township_50 red_deer_band_def edmonton_band_def)
qed

text \<open>
  C2. \<open>SW 14-45-25-W4\<close> parses to the type \<open>quarter_section\<close> with quarter SW, section
  14, township 45, range 25, meridian direction W and meridian 4. The property record
  that the parser returns for this legal description alone has no hints and no
  coordinates, and resolving it on the table as loaded goes through the legal
  description: township 45 and range 25 are in the Red Deer band, and the result is a
  copy of the Red Deer record with its name and the category \<open>city\<close>.
\<close>

theorem sw_quarter_resolves_to_red_deer:
  "parse_legal_description ''SW 14-45-25-W4'' = sw_quarter \<and>
   parse_property_info geolocator [] ''SW 14-45-25-W4'' [] = Inr (Some sw_property) \<and>
   township_range sw_quarter = Some (45, 25) \<and> red_deer_band 45 25 \<and>
   find_municipality geodesic loaded_lookup sw_property loaded_heap =
     find_by_legal_description loaded_lookup sw_quarter loaded_heap \<and>
   find_municipality geodesic loaded_lookup sw_property loaded_heap =
     (Inr (Some 48),
      loaded_heap @
        [[(''type'', PStr ''city''), (''population'', PInt 100844),
          (''coordinates'', PRef 0), (''website'', PStr ''https://www.reddeer.ca''),
          (''planning_dept'', PStr ''planning@reddeer.ca''),
          (''land_use_bylaw'',
           PStr ''https://www.reddeer.ca/city-government/bylaws-and-policies/land-use-bylaw/''),
          (''zoning_map'',
           PStr ''https://www.reddeer.ca/city-services/planning-and-development/zoning-maps/''),
          (''contact_info'', PRef 1), (''name'', PStr ''Red Deer''),
          (''category'', PStr ''city'')]])"
proof -
  have legal: "find_by_legal_description loaded_lookup sw_quarter loaded_heap =
     find_by_name loaded_lookup ''Red Deer'' loaded_heap"
    by (simp add: find_by_legal_description_def township_range_sw_quarter red_deer_band_def)
  have typed: "legal_type sw_quarter \<noteq> ''unknown''"
    by (simp add: sw_quarter_def)
  have "find_municipality geodesic loaded_lookup sw_property loaded_heap =
     find_by_legal_description loaded_lookup sw_quarter loaded_heap"
    using find_by_name_truthy [OF red_deer_by_name] typed
    by (simp add: find_municipality_def method2_def method3_def sw_property_def
        first_by_name_Nil pbind_def truthy_result_def legal red_deer_by_name
        del: first_by_name.simps)
  then show ?thesis
    by (simp add: parse_sw_quarter parse_sw_property township_range_sw_quarter
        red_deer_band_def legal red_deer_by_name loaded_facts)
qed

end
